theory Spec2Isabelle
  imports Main "HOL-Library.Sublist"
begin

section \<open>Hover Editor: link-mode resolver, sidebar preview manager, settings\<close>

text \<open>
  A shallow embedding of \<^verbatim>\<open>src/main.ts\<close> (class \<^verbatim>\<open>HoverEditorPlugin\<close>) and of the
  settings table of \<^verbatim>\<open>src/settings/settings.ts\<close>.

  The plugin runs inside a host application. What the plugin asks of the host (link
  resolution, the metadata cache, sidebar leaves) is a parameter of the model, a record
  of answers \<open>host\<close>; what the plugin tells the host to do (open a view, reveal a leaf,
  the built-in hover preview) is appended to a log of calls. Timers registered with
  \<^verbatim>\<open>setTimeout\<close> are kept in a list of pending tasks; the host decides when each fires.
\<close>

subsection \<open>Values and settings\<close>

text \<open>The JavaScript values that occur in settings and in ephemeral states.\<close>

record Loc =
  line :: int
  col :: int
  offset :: int

datatype jsval =
    JUndefined
  | JNull
  | JBool bool
  | JNum int
  | JStr string
  | JLoc Loc

text \<open>
  A JavaScript object used as a key/value record: a map from property names to values.
  A property that is present with the value \<^verbatim>\<open>undefined\<close> is \<open>Some JUndefined\<close>, a property
  that is absent is \<open>None\<close>.
\<close>

type_synonym jsobject = "string \<rightharpoonup> jsval"

type_synonym EphemeralState = jsobject

text \<open>
  \<^verbatim>\<open>interface HoverEditorSettings\<close>. The per-link-type fields are declared as
  \<^verbatim>\<open>"native" | "floating" | "sidebar"\<close>; the declaration is erased at run time, where the
  field holds whatever string was stored, so the fields are strings here.
\<close>

record HoverEditorSettings =
  defaultMode :: string
  autoPin :: string
  triggerDelay :: int
  closeDelay :: int
  autoFocus :: bool
  rollDown :: bool
  snapToEdges :: bool
  initialHeight :: string
  initialWidth :: string
  showViewHeader :: bool
  imageZoom :: bool
  footnotes :: string
  headings :: string
  blocks :: string
  hoverEmbeds :: string
  sidebarAutoFocus :: bool
  sidebarPosition :: string
  sidebarAutoReveal :: bool
  regularLinks :: string

subsection \<open>Link text\<close>

text \<open>The result of the host's \<^verbatim>\<open>parseLinktext\<close>: \<^verbatim>\<open>{ path, subpath }\<close>.\<close>

record Linktext =
  path :: string
  subpath :: string

text \<open>
  \<^verbatim>\<open>parseLinktext\<close> is imported from the host's API (\<^verbatim>\<open>"obsidian"\<close>), it is not code of the
  plugin. The functions below take the parser as a parameter. \<open>obsidianParseLinktext\<close> is
  the host's documented behaviour, used where a concrete parser is needed: the path is the
  text before the first \<^verbatim>\<open>#\<close>, the subpath is the text from the first \<^verbatim>\<open>#\<close> on, and the
  subpath is empty when there is no \<^verbatim>\<open>#\<close>.
\<close>

definition obsidianParseLinktext :: "string \<Rightarrow> Linktext" where
  "obsidianParseLinktext linktext =
     \<lparr> path = takeWhile (\<lambda>c. c \<noteq> CHR ''#'') linktext,
       subpath = dropWhile (\<lambda>c. c \<noteq> CHR ''#'') linktext \<rparr>"

text \<open>
  The five kinds of link of \<^verbatim>\<open>onLinkHover\<close> (main.ts, lines 508 to 526). The source has
  no value for the kind: each branch of its \<^verbatim>\<open>if\<close> chain reads one settings field, and the
  kind names the branch.
\<close>

datatype LinkClassification = Regular | Heading | Block | Footnote | Embed

definition classify :: "(string \<Rightarrow> Linktext) \<Rightarrow> string \<Rightarrow> LinkClassification" where
  "classify parse linkText =
     (let sp = subpath (parse linkText) in
      if sp \<noteq> [] \<and> hd sp = CHR ''#'' then
        (if prefix ''#[^'' sp then Footnote
         else if prefix ''#^'' sp then Block
         else Heading)
      else if prefix ''!'' linkText then Embed
      else Regular)"

fun modeSetting :: "HoverEditorSettings \<Rightarrow> LinkClassification \<Rightarrow> string" where
  "modeSetting s Footnote = footnotes s"
| "modeSetting s Block = blocks s"
| "modeSetting s Heading = headings s"
| "modeSetting s Embed = hoverEmbeds s"
| "modeSetting s Regular = regularLinks s"

text \<open>
  The variable \<^verbatim>\<open>mode\<close> of \<^verbatim>\<open>onLinkHover\<close>, as the source computes it:
  \<^verbatim>\<open>
  const { subpath } = parseLinktext(linkText);
  if (subpath && subpath[0] === "#") {
    if (subpath.startsWith("#[^")) mode = plugin.settings.footnotes;
    else if (subpath.startsWith("#^")) mode = plugin.settings.blocks;
    else mode = plugin.settings.headings;
  } else if (linkText.startsWith("!")) mode = plugin.settings.hoverEmbeds;
  else mode = plugin.settings.regularLinks;
  \<close>
\<close>

definition linkMode :: "HoverEditorSettings \<Rightarrow> (string \<Rightarrow> Linktext) \<Rightarrow> string \<Rightarrow> string" where
  "linkMode s parse linkText =
     (let sp = subpath (parse linkText) in
      if sp \<noteq> [] \<and> hd sp = CHR ''#'' then
        (if prefix ''#[^'' sp then footnotes s
         else if prefix ''#^'' sp then blocks s
         else headings s)
      else if prefix ''!'' linkText then hoverEmbeds s
      else regularLinks s)"

subsection \<open>The host\<close>

type_synonym leaf = nat
type_synonym element = nat

datatype TFile = TFile string

fun filePath :: "TFile \<Rightarrow> string" where
  "filePath (TFile p) = p"

text \<open>
  What \<^verbatim>\<open>resolveSubpath\<close> returns when it resolves: \<^verbatim>\<open>{ start, end }\<close>, where \<^verbatim>\<open>end\<close> may be
  \<^verbatim>\<open>null\<close>.
\<close>

record SubpathResult =
  res_start :: Loc
  res_end :: "Loc option"

text \<open>
  The host's answers at the time of a call. \<open>'c\<close> is the host's type of a file's
  metadata cache. \<open>None\<close> is \<^verbatim>\<open>null\<close> or \<^verbatim>\<open>undefined\<close>.
  \<^item> \<open>parseLinktext\<close>: the host's \<^verbatim>\<open>parseLinktext\<close>;
  \<^item> \<open>getFirstLinkpathDest\<close>: \<^verbatim>\<open>app.metadataCache.getFirstLinkpathDest(linkpath, sourcePath)\<close>;
  \<^item> \<open>getFileCache\<close>: \<^verbatim>\<open>app.metadataCache.getFileCache(file)\<close>;
  \<^item> \<open>resolveSubpath\<close>: the host's \<^verbatim>\<open>resolveSubpath(cache, subpath)\<close>;
  \<^item> \<open>getLeftLeaf\<close>, \<open>getRightLeaf\<close>: \<^verbatim>\<open>app.workspace.getLeftLeaf(split)\<close> and its twin;
  \<^item> \<open>disposed\<close>: the property \<^verbatim>\<open>leaf.disposed\<close>;
  \<^item> \<open>activeViewMode\<close>: \<^verbatim>\<open>app.workspace.getActiveViewOfType(ItemView)?.getMode?.()\<close>.
\<close>

record 'c host =
  parseLinktext :: "string \<Rightarrow> Linktext"
  getFirstLinkpathDest :: "string \<Rightarrow> string \<Rightarrow> TFile option"
  getFileCache :: "TFile \<Rightarrow> 'c option"
  resolveSubpath :: "'c \<Rightarrow> string \<Rightarrow> SubpathResult option"
  getLeftLeaf :: "bool \<Rightarrow> leaf option"
  getRightLeaf :: "bool \<Rightarrow> leaf option"
  disposed :: "leaf \<Rightarrow> bool"
  activeViewMode :: "string option"

text \<open>
  The arguments of one hover event, as \<^verbatim>\<open>onLinkHover\<close> receives them:
  \<^verbatim>\<open>(parent, targetEl, linkText, path, state, ...args)\<close>. The parameter \<^verbatim>\<open>path\<close> is
  \<open>sourcePath\<close> here (\<open>path\<close> is the field of \<open>Linktext\<close>).
\<close>

record HoverArgs =
  parent :: nat
  targetEl :: element
  linkText :: string
  sourcePath :: string
  state :: "EphemeralState option"
  args :: "jsval list"

text \<open>
  The calls the plugin makes:
  \<^item> \<open>NativeLinkHover\<close>: \<^verbatim>\<open>old.call(this, parent, targetEl, linkText, path, state, ...args)\<close>,
    the host's built-in hover preview;
  \<^item> \<open>FloatingLinkHover\<close>: \<^verbatim>\<open>onLinkHover(plugin, parent, targetEl, linkText, path, state, ...args)\<close>
    of \<^verbatim>\<open>./onLinkHover\<close>, which opens the floating popover;
  \<^item> \<open>GetLeftLeaf\<close>, \<open>GetRightLeaf\<close>: a request for a sidebar leaf;
  \<^item> \<open>SetViewState leaf file mode active\<close>:
    \<^verbatim>\<open>leaf.setViewState({ type: "markdown", state: { file, mode }, active })\<close>;
  \<^item> \<open>SetEphemeralState\<close>, \<open>RevealLeaf\<close>: \<^verbatim>\<open>leaf.setEphemeralState(eState)\<close>,
    \<^verbatim>\<open>app.workspace.revealLeaf(leaf)\<close>;
  \<^item> \<open>SetActiveLeaf leaf focus\<close>: \<^verbatim>\<open>app.workspace.setActiveLeaf(leaf, { focus })\<close>.
\<close>

datatype call =
    NativeLinkHover HoverArgs
  | FloatingLinkHover HoverArgs
  | GetLeftLeaf bool
  | GetRightLeaf bool
  | SetViewState leaf string string bool
  | SetEphemeralState leaf EphemeralState
  | RevealLeaf leaf
  | SetActiveLeaf leaf bool

text \<open>
  The closures handed to \<^verbatim>\<open>setTimeout\<close>: \<^verbatim>\<open>handleHover\<close> with the variables it captured
  (\<^verbatim>\<open>mode\<close> and the hover's arguments), and the arrow function of \<^verbatim>\<open>openFileInSidebar\<close>
  that applies the ephemeral state.
\<close>

datatype task =
    HandleHover string HoverArgs
  | ApplyEphemeral leaf EphemeralState

datatype error = TypeError

text \<open>
  The plugin instance and its surroundings: the settings, the tracked sidebar leaf
  (\<^verbatim>\<open>private currentSidebarLeaf: WorkspaceLeaf | null = null\<close>), the timers registered and
  not yet fired (delay in milliseconds and task, in the order of registration), the calls
  made so far, and the exceptions nobody caught.
\<close>

record plugin =
  settings :: HoverEditorSettings
  currentSidebarLeaf :: "leaf option"
  timers :: "(int \<times> task) list"
  calls :: "call list"
  uncaught :: "error list"

definition emit :: "call \<Rightarrow> plugin \<Rightarrow> plugin" where
  "emit c w = w\<lparr>calls := calls w @ [c]\<rparr>"

definition setTimeout :: "task \<Rightarrow> int \<Rightarrow> plugin \<Rightarrow> plugin" where
  "setTimeout t delay w = w\<lparr>timers := timers w @ [(delay, t)]\<rparr>"

subsection \<open>Sidebar preview manager\<close>

text \<open>\<^verbatim>\<open>s.split(c)\<close> for a one-character separator: never empty, one more piece than separators.\<close>

fun split :: "char \<Rightarrow> string \<Rightarrow> string list" where
  "split c [] = [[]]"
| "split c (x # xs) =
     (if x = c then [] # split c xs
      else (case split c xs of
              [] \<Rightarrow> [[x]]
            | y # ys \<Rightarrow> (x # y) # ys))"

text \<open>Reading an array by index: \<^verbatim>\<open>undefined\<close> out of range.\<close>

definition index :: "'a list \<Rightarrow> nat \<Rightarrow> 'a option" where
  "index xs i = (if i < length xs then Some (xs ! i) else None)"

text \<open>
  The local variable \<^verbatim>\<open>subpath\<close> of \<^verbatim>\<open>buildEphemeralState\<close> (\<open>subpath\<close> is the field of
  \<open>Linktext\<close>):
  \<^verbatim>\<open>const subpath = linktext.includes("#") ? linktext.split("#")[1] : "";\<close>
  With a \<^verbatim>\<open>#\<close> in the text the split has at least two pieces (lemma \<open>index_split_hash\<close>
  below), so the index is in range; \<^verbatim>\<open>undefined\<close>, which is falsy like the empty string, is not
  reached.
\<close>

definition anchorOf :: "string \<Rightarrow> string" where
  "anchorOf linktext =
     (if CHR ''#'' \<in> set linktext
      then (case index (split CHR ''#'' linktext) 1 of Some s \<Rightarrow> s | None \<Rightarrow> [])
      else [])"

text \<open>
  \<^verbatim>\<open>
  private buildEphemeralState(file, linktext, oldState?) {
    const cache = this.app.metadataCache.getFileCache(file);
    const subpath = linktext.includes("#") ? linktext.split("#")[1] : "";
    const resolved = cache ? resolveSubpath(cache, subpath) : undefined;
    const eState = { subpath: subpath ? `#${subpath}` : undefined, ...oldState };
    if (resolved) {
      eState.line = resolved.start.line;
      eState.startLoc = resolved.start;
      eState.endLoc = resolved.end;
    }
    return eState;
  }
  \<close>
  The spread \<^verbatim>\<open>...oldState\<close> comes after the property \<^verbatim>\<open>subpath\<close>: every property that
  \<^verbatim>\<open>oldState\<close> has overrides the one written before it.
\<close>

definition spread :: "jsobject option \<Rightarrow> jsobject" where
  "spread obj = (case obj of None \<Rightarrow> Map.empty | Some m \<Rightarrow> m)"

definition buildEphemeralState ::
  "'c host \<Rightarrow> TFile \<Rightarrow> string \<Rightarrow> EphemeralState option \<Rightarrow> EphemeralState" where
  "buildEphemeralState h file linktext oldState =
     (let cache = getFileCache h file;
          sp = anchorOf linktext;
          resolved = (case cache of None \<Rightarrow> None | Some c \<Rightarrow> resolveSubpath h c sp);
          eState = [''subpath'' \<mapsto> (if sp \<noteq> [] then JStr (CHR ''#'' # sp) else JUndefined)]
                     ++ spread oldState
      in case resolved of
           None \<Rightarrow> eState
         | Some r \<Rightarrow>
             eState(''line'' \<mapsto> JNum (line (res_start r)),
                    ''startLoc'' \<mapsto> JLoc (res_start r),
                    ''endLoc'' \<mapsto> (case res_end r of None \<Rightarrow> JNull | Some l \<Rightarrow> JLoc l)))"

text \<open>
  \<^verbatim>\<open>
  private getViewMode(): string {
    const defaultMode = this.settings.defaultMode;
    if (defaultMode === "match") {
      const activeView = this.app.workspace.getActiveViewOfType(ItemView);
      return (activeView as any)?.getMode?.() ?? "preview";
    }
    return defaultMode;
  }
  \<close>
\<close>

definition getViewMode :: "'c host \<Rightarrow> HoverEditorSettings \<Rightarrow> string" where
  "getViewMode h s =
     (if defaultMode s = ''match''
      then (case activeViewMode h of None \<Rightarrow> ''preview'' | Some m \<Rightarrow> m)
      else defaultMode s)"

text \<open>
  The arrow function \<^verbatim>\<open>getLeaf\<close> of \<^verbatim>\<open>openFileInSidebar\<close>:
  \<^verbatim>\<open>
  this.settings.sidebarPosition === "left"
    ? () => getLeftLeaf(false) ?? getLeftLeaf(true)
    : () => getRightLeaf(false) ?? getRightLeaf(true)
  \<close>
  The right operand of \<^verbatim>\<open>??\<close> is evaluated only when the left one is \<^verbatim>\<open>null\<close>. The result, a
  leaf or \<^verbatim>\<open>null\<close>, is stored in \<^verbatim>\<open>currentSidebarLeaf\<close>.
\<close>

definition getLeaf :: "'c host \<Rightarrow> plugin \<Rightarrow> plugin" where
  "getLeaf h w =
     (if sidebarPosition (settings w) = ''left'' then
        (case getLeftLeaf h False of
           Some l \<Rightarrow> (emit (GetLeftLeaf False) w)\<lparr>currentSidebarLeaf := Some l\<rparr>
         | None \<Rightarrow>
             (emit (GetLeftLeaf True) (emit (GetLeftLeaf False) w))
               \<lparr>currentSidebarLeaf := getLeftLeaf h True\<rparr>)
      else
        (case getRightLeaf h False of
           Some l \<Rightarrow> (emit (GetRightLeaf False) w)\<lparr>currentSidebarLeaf := Some l\<rparr>
         | None \<Rightarrow>
             (emit (GetRightLeaf True) (emit (GetRightLeaf False) w))
               \<lparr>currentSidebarLeaf := getRightLeaf h True\<rparr>))"

text \<open>
  \<^verbatim>\<open>if (!this.currentSidebarLeaf || this.currentSidebarLeaf.disposed) this.currentSidebarLeaf = getLeaf();\<close>
\<close>

definition trackedLeafLive :: "'c host \<Rightarrow> plugin \<Rightarrow> bool" where
  "trackedLeafLive h w =
     (case currentSidebarLeaf w of None \<Rightarrow> False | Some l \<Rightarrow> \<not> disposed h l)"

definition ensureSidebarLeaf :: "'c host \<Rightarrow> plugin \<Rightarrow> plugin" where
  "ensureSidebarLeaf h w = (if trackedLeafLive h w then w else getLeaf h w)"

text \<open>
  \<^verbatim>\<open>openFileInSidebar(file, linkText, state)\<close>, lines 107 to 147. When no leaf could be
  acquired, \<^verbatim>\<open>leaf\<close> is \<^verbatim>\<open>null\<close> and \<^verbatim>\<open>leaf.setViewState\<close> throws a TypeError, which rejects the
  promise: nothing after it runs. The function is \<^verbatim>\<open>async\<close>; the model runs the part after
  \<^verbatim>\<open>await leaf.setViewState(...)\<close> as soon as the call is made. The callback registered with
  \<^verbatim>\<open>setTimeout(..., 50)\<close> is the task \<open>ApplyEphemeral\<close>.
\<close>

definition openFileInSidebar ::
  "'c host \<Rightarrow> TFile \<Rightarrow> string \<Rightarrow> EphemeralState option \<Rightarrow> plugin \<Rightarrow> plugin" where
  "openFileInSidebar h file ltext st w =
     (let w1 = ensureSidebarLeaf h w in
      case currentSidebarLeaf w1 of
        None \<Rightarrow> w1\<lparr>uncaught := uncaught w1 @ [TypeError]\<rparr>
      | Some leaf \<Rightarrow>
          (let eState = buildEphemeralState h file ltext st;
               mode = getViewMode h (settings w1);
               w2 = emit (SetViewState leaf (filePath file) mode True) w1;
               w3 = setTimeout (ApplyEphemeral leaf eState) 50 w2;
               w4 = (if sidebarAutoReveal (settings w3) then emit (RevealLeaf leaf) w3 else w3)
           in if sidebarAutoFocus (settings w4) then emit (SetActiveLeaf leaf True) w4 else w4))"

subsection \<open>Link-mode resolver\<close>

text \<open>
  \<^verbatim>\<open>
  const handleHover = () => {
    const file = plugin.app.metadataCache.getFirstLinkpathDest(parseLinktext(linkText).path, path);
    if (!(file instanceof TFile)) {
      old.call(this, parent, targetEl, linkText, path, state, ...args);
      return;
    }
    if (mode === "sidebar") {
      (async () => { await plugin.openFileInSidebar(file, linkText, state); })();
    } else {
      onLinkHover(plugin, parent, targetEl, linkText, path, state, ...args);
    }
  };
  \<close>
\<close>

definition handleHover :: "'c host \<Rightarrow> string \<Rightarrow> HoverArgs \<Rightarrow> plugin \<Rightarrow> plugin" where
  "handleHover h mode a w =
     (case getFirstLinkpathDest h (path (parseLinktext h (linkText a))) (sourcePath a) of
        None \<Rightarrow> emit (NativeLinkHover a) w
      | Some file \<Rightarrow>
          if mode = ''sidebar'' then openFileInSidebar h file (linkText a) (state a) w
          else emit (FloatingLinkHover a) w)"

text \<open>
  The patched \<^verbatim>\<open>onLinkHover\<close>, lines 499 to 560:
  \<^verbatim>\<open>
  if (mode === "native") return old.call(this, parent, targetEl, linkText, path, state, ...args);
  const handleHover = ...;
  if (plugin.settings.triggerDelay > 0) setTimeout(handleHover, plugin.settings.triggerDelay);
  else handleHover();
  \<close>
\<close>

definition onLinkHover :: "'c host \<Rightarrow> HoverArgs \<Rightarrow> plugin \<Rightarrow> plugin" where
  "onLinkHover h a w =
     (let mode = linkMode (settings w) (parseLinktext h) (linkText a) in
      if mode = ''native'' then emit (NativeLinkHover a) w
      else if triggerDelay (settings w) > 0
        then setTimeout (HandleHover mode a) (triggerDelay (settings w)) w
        else handleHover h mode a w)"

text \<open>What a timer does when the host fires it.\<close>

fun runTask :: "'c host \<Rightarrow> task \<Rightarrow> plugin \<Rightarrow> plugin" where
  "runTask h (HandleHover mode a) w = handleHover h mode a w"
| "runTask h (ApplyEphemeral leaf eState) w =
     (if \<not> disposed h leaf then emit (SetEphemeralState leaf eState) w else w)"

text \<open>
  The host fires the pending timer at position \<open>i\<close>: the timer leaves the list and its
  task runs. Nothing happens when there is no such timer.
\<close>

definition fireTimer :: "'c host \<Rightarrow> nat \<Rightarrow> plugin \<Rightarrow> plugin" where
  "fireTimer h i w =
     (case index (timers w) i of
        None \<Rightarrow> w
      | Some (d, t) \<Rightarrow> runTask h t (w\<lparr>timers := take i (timers w) @ drop (Suc i) (timers w)\<rparr>))"

text \<open>The pending \<^verbatim>\<open>handleHover\<close> timers of one target element.\<close>

fun hoverTaskFor :: "element \<Rightarrow> int \<times> task \<Rightarrow> bool" where
  "hoverTaskFor el (d, HandleHover mode a) = (targetEl a = el)"
| "hoverTaskFor el (d, ApplyEphemeral leaf eState) = False"

definition pendingHovers :: "element \<Rightarrow> plugin \<Rightarrow> nat" where
  "pendingHovers el w = length (filter (hoverTaskFor el) (timers w))"

subsection \<open>Settings\<close>

text \<open>\<^verbatim>\<open>export const DEFAULT_SETTINGS: HoverEditorSettings = { ... }\<close> of settings.ts.\<close>

definition DEFAULT_SETTINGS :: jsobject where
  "DEFAULT_SETTINGS = map_of
     [(''regularLinks'', JStr ''sidebar''),
      (''defaultMode'', JStr ''match''),
      (''autoPin'', JStr ''onMove''),
      (''triggerDelay'', JNum 300),
      (''closeDelay'', JNum 600),
      (''autoFocus'', JBool True),
      (''rollDown'', JBool False),
      (''snapToEdges'', JBool False),
      (''initialHeight'', JStr ''340px''),
      (''initialWidth'', JStr ''400px''),
      (''showViewHeader'', JBool False),
      (''imageZoom'', JBool True),
      (''footnotes'', JStr ''native''),
      (''headings'', JStr ''sidebar''),
      (''blocks'', JStr ''floating''),
      (''hoverEmbeds'', JStr ''sidebar''),
      (''sidebarAutoFocus'', JBool False),
      (''sidebarPosition'', JStr ''right''),
      (''sidebarAutoReveal'', JBool True)]"

text \<open>
  \<^verbatim>\<open>Object.assign(target, ...sources)\<close>: the properties of each source are copied onto the
  target, a later source overriding an earlier one; a source that is \<^verbatim>\<open>null\<close> or \<^verbatim>\<open>undefined\<close>
  is skipped.
\<close>

definition Object_assign :: "jsobject \<Rightarrow> jsobject option list \<Rightarrow> jsobject" where
  "Object_assign target sources = foldl (\<lambda>t src. t ++ spread src) target sources"

text \<open>
  \<^verbatim>\<open>this.settings = Object.assign({}, DEFAULT_SETTINGS, await this.loadData());\<close>
  The argument is what \<^verbatim>\<open>loadData\<close> returned: the stored object, or \<^verbatim>\<open>null\<close> when nothing was
  stored.
\<close>

definition loadSettings :: "jsobject option \<Rightarrow> jsobject" where
  "loadSettings data = Object_assign Map.empty [Some DEFAULT_SETTINGS, data]"

text \<open>The keys of \<^verbatim>\<open>interface HoverEditorSettings\<close>.\<close>

definition settingsKeys :: "string list" where
  "settingsKeys =
     [''defaultMode'', ''autoPin'', ''triggerDelay'', ''closeDelay'', ''autoFocus'', ''rollDown'',
      ''snapToEdges'', ''initialHeight'', ''initialWidth'', ''showViewHeader'', ''imageZoom'',
      ''footnotes'', ''headings'', ''blocks'', ''hoverEmbeds'', ''sidebarAutoFocus'',
      ''sidebarPosition'', ''sidebarAutoReveal'', ''regularLinks'']"

text \<open>The values the declaration of a per-link-type mode field allows.\<close>

definition modeFields :: "string list" where
  "modeFields = [''footnotes'', ''headings'', ''blocks'', ''hoverEmbeds'', ''regularLinks'']"

definition recognizedMode :: "jsval \<Rightarrow> bool" where
  "recognizedMode v = (v = JStr ''native'' \<or> v = JStr ''floating'' \<or> v = JStr ''sidebar'')"

subsection \<open>Popovers\<close>

text \<open>
  Modelled from the spec: the states of a popover, section 3 ("PopoverState: one of Hidden,
  Showing, Shown, FadeOut"); the enumeration itself is the host's, imported by main.ts.
\<close>

datatype PopoverState = Hidden | Showing | Shown | FadeOut

text \<open>
  Modelled from the spec: the class \<^verbatim>\<open>HoverEditor\<close> of \<^verbatim>\<open>./popover\<close>, which is not among the
  sources. The fields are those of the specification's PopoverState (section 3) that the
  pin and the close timer need: the state, the pinned flag, the pending close timer (its
  delay), the attached leaf and whether the popover was destroyed; \<open>hoverParent\<close> and
  \<open>initiatingEl\<close> are the first two arguments of the constructor.
\<close>

record HoverEditor =
  hoverParent :: leaf
  initiatingEl :: element
  popState :: PopoverState
  isPinned :: bool
  closeTimer :: "int option"
  attachedLeaf :: "leaf option"
  destroyed :: bool

text \<open>
  Modelled from the spec: the constructor of \<^verbatim>\<open>HoverEditor\<close> (\<^verbatim>\<open>./popover\<close>, not among the
  sources). A popover is created Hidden, unpinned, with no close timer and no leaf.
\<close>

definition newHoverEditor :: "leaf \<Rightarrow> element \<Rightarrow> HoverEditor" where
  "newHoverEditor p el =
     \<lparr> hoverParent = p, initiatingEl = el, popState = Hidden, isPinned = False,
       closeTimer = None, attachedLeaf = None, destroyed = False \<rparr>"

text \<open>
  Modelled from the spec: \<^verbatim>\<open>HoverEditor.togglePin\<close> (\<^verbatim>\<open>./popover\<close>, not among the sources),
  section 4.2: "\<^verbatim>\<open>togglePin(explicit)\<close>: pinned popovers ignore pointer-leave close timers". With
  an argument the flag takes its value; without one the flag flips.
\<close>

definition togglePin :: "bool option \<Rightarrow> HoverEditor \<Rightarrow> HoverEditor" where
  "togglePin explicit p =
     p\<lparr>isPinned := (case explicit of None \<Rightarrow> \<not> isPinned p | Some v \<Rightarrow> v)\<rparr>"

text \<open>
  Modelled from the spec: \<^verbatim>\<open>HoverEditor.attachLeaf\<close> (\<^verbatim>\<open>./popover\<close>, not among the sources),
  section 4.2, spawn: a pane is allocated inside the floating container and the popover goes
  from Hidden to Showing. The new leaf is the host's, a parameter here.
\<close>

definition attachLeaf :: "leaf \<Rightarrow> HoverEditor \<Rightarrow> leaf \<times> HoverEditor" where
  "attachLeaf l p =
     (l, p\<lparr>attachedLeaf := Some l,
            popState := (if popState p = Hidden then Showing else popState p)\<rparr>)"

text \<open>
  Modelled from the spec: the pointer and timer transitions of \<^verbatim>\<open>HoverEditor\<close> (\<^verbatim>\<open>./popover\<close>,
  not among the sources), section 4.2:
  \<^item> pointer-enter: "cancel any pending close timer; Showing/FadeOut to Shown";
  \<^item> pointer-leave: "(unpinned only): start close timer of closeDelay ms";
  \<^item> expiry of the close timer: "if not re-entered before expiry, Shown to FadeOut to Hidden to
    destroyed (detach pane)".
\<close>

datatype PopoverEvent = PointerEnter | PointerLeave | CloseTimerExpired

text \<open>
  Modelled from the spec: one transition of a popover (\<^verbatim>\<open>./popover\<close>, not among the sources),
  by the three rules of section 4.2 quoted above; \<open>delay\<close> is the setting \<^verbatim>\<open>closeDelay\<close>.
\<close>

fun popoverStep :: "int \<Rightarrow> HoverEditor \<Rightarrow> PopoverEvent \<Rightarrow> HoverEditor" where
  "popoverStep delay p PointerEnter =
     p\<lparr>closeTimer := None,
       popState := (if popState p = Showing \<or> popState p = FadeOut then Shown else popState p)\<rparr>"
| "popoverStep delay p PointerLeave =
     (if isPinned p then p else p\<lparr>closeTimer := Some delay\<rparr>)"
| "popoverStep delay p CloseTimerExpired =
     (case closeTimer p of
        None \<Rightarrow> p
      | Some d \<Rightarrow> p\<lparr>closeTimer := None, popState := Hidden, attachedLeaf := None,
                    destroyed := True\<rparr>)"

text \<open>
  Modelled from the spec: a popover's life under a sequence of such events, one transition
  after the other.
\<close>

definition popoverRun :: "int \<Rightarrow> HoverEditor \<Rightarrow> PopoverEvent list \<Rightarrow> HoverEditor" where
  "popoverRun delay p evs = foldl (popoverStep delay) p evs"

text \<open>The active leaf of the workspace, with its container element.\<close>

record ActiveLeaf =
  activeLeafId :: leaf
  containerEl :: element

text \<open>
  \<^verbatim>\<open>
  spawnPopover(initiatingEl?: HTMLElement, onShowCallback?: () => unknown): WorkspaceLeaf {
    const parent = this.app.workspace.activeLeaf as unknown as HoverEditorParent;
    if (!initiatingEl) initiatingEl = parent.containerEl;
    const hoverPopover = new HoverEditor(parent, initiatingEl!, this, undefined, onShowCallback);
    hoverPopover.togglePin(true);
    return hoverPopover.attachLeaf();
  }
  \<close>
  \<^verbatim>\<open>activeLeaf\<close> may be \<^verbatim>\<open>null\<close>; then \<^verbatim>\<open>parent.containerEl\<close> throws a TypeError, and so does the
  constructor's use of the parent: no popover is created. The callback is not modelled. The
  result is the leaf returned and the popover it belongs to.
\<close>

definition spawnPopover ::
  "ActiveLeaf option \<Rightarrow> leaf \<Rightarrow> element option \<Rightarrow> error + (leaf \<times> HoverEditor)" where
  "spawnPopover activeLeaf newLeaf el =
     (case activeLeaf of
        None \<Rightarrow> Inl TypeError
      | Some parentLeaf \<Rightarrow>
          (let el' = (case el of None \<Rightarrow> containerEl parentLeaf | Some e \<Rightarrow> e);
               hoverPopover = newHoverEditor (activeLeafId parentLeaf) el';
               pinned = togglePin (Some True) hoverPopover
           in Inr (attachLeaf newLeaf pinned)))"

subsection \<open>Observations and a concrete configuration\<close>

text \<open>The calls made between two states, and the requests for a sidebar leaf among calls.\<close>

definition callsSince :: "plugin \<Rightarrow> plugin \<Rightarrow> call list" where
  "callsSince w w' = drop (length (calls w)) (calls w')"

fun isLeafRequest :: "call \<Rightarrow> bool" where
  "isLeafRequest (GetLeftLeaf b) = True"
| "isLeafRequest (GetRightLeaf b) = True"
| "isLeafRequest c = False"

fun isSetActiveLeaf :: "call \<Rightarrow> bool" where
  "isSetActiveLeaf (SetActiveLeaf l focus) = True"
| "isSetActiveLeaf c = False"

fun isRevealLeaf :: "call \<Rightarrow> bool" where
  "isRevealLeaf (RevealLeaf l) = True"
| "isRevealLeaf c = False"

text \<open>
  The first choice of \<^verbatim>\<open>getLeaf\<close> on a side, and the second when the first is \<^verbatim>\<open>null\<close>:
  \<^verbatim>\<open>a ?? b\<close>.
\<close>

definition nullish :: "'a option \<Rightarrow> 'a option \<Rightarrow> 'a option" where
  "nullish a b = (case a of None \<Rightarrow> b | Some x \<Rightarrow> Some x)"

text \<open>
  The leaf that a call asks the host to make the active one: \<^verbatim>\<open>setViewState\<close> with
  \<^verbatim>\<open>active: true\<close>, and \<^verbatim>\<open>setActiveLeaf\<close>. The plugin itself uses the flag this way: the menu
  action "Open in Hover Editor" (main.ts, line 291) calls
  \<^verbatim>\<open>newLeaf.setViewState({...this.leaf.getViewState(), active: autoFocus}, {focus: autoFocus})\<close>.
\<close>

fun makesActive :: "call \<Rightarrow> leaf option" where
  "makesActive (SetViewState l f m active) = (if active then Some l else None)"
| "makesActive (SetActiveLeaf l focus) = Some l"
| "makesActive c = None"

text \<open>The leaf a call acts on, for the calls that act on a leaf.\<close>

fun callLeaf :: "call \<Rightarrow> leaf option" where
  "callLeaf (SetViewState l f m active) = Some l"
| "callLeaf (SetEphemeralState l e) = Some l"
| "callLeaf (RevealLeaf l) = Some l"
| "callLeaf (SetActiveLeaf l focus) = Some l"
| "callLeaf c = None"

text \<open>The settings of the default table, as a settings record.\<close>

definition defaultSettings :: HoverEditorSettings where
  "defaultSettings =
     \<lparr> defaultMode = ''match'', autoPin = ''onMove'', triggerDelay = 300, closeDelay = 600,
       autoFocus = True, rollDown = False, snapToEdges = False, initialHeight = ''340px'',
       initialWidth = ''400px'', showViewHeader = False, imageZoom = True,
       footnotes = ''native'', headings = ''sidebar'', blocks = ''floating'',
       hoverEmbeds = ''sidebar'', sidebarAutoFocus = False, sidebarPosition = ''right'',
       sidebarAutoReveal = True, regularLinks = ''sidebar'' \<rparr>"

text \<open>
  A vault with one note, \<^verbatim>\<open>Note.md\<close>, whose heading \<^verbatim>\<open>Heading\<close> is on line 4; the right
  sidebar has no leaf yet and gives leaf 7 when asked to split; the left sidebar has leaf 3.
\<close>

definition exampleHost :: "nat host" where
  "exampleHost =
     \<lparr> parseLinktext = obsidianParseLinktext,
       getFirstLinkpathDest = (\<lambda>linkpath src. if linkpath = ''Note'' then Some (TFile ''Note.md'') else None),
       getFileCache = (\<lambda>f. if f = TFile ''Note.md'' then Some 0 else None),
       resolveSubpath = (\<lambda>c sp. if sp = ''Heading''
                           then Some \<lparr> res_start = \<lparr> line = 4, col = 0, offset = 40 \<rparr>,
                                       res_end = None \<rparr>
                           else None),
       getLeftLeaf = (\<lambda>b. Some 3),
       getRightLeaf = (\<lambda>b. if b then Some 7 else None),
       disposed = (\<lambda>l. False),
       activeViewMode = None \<rparr>"

text \<open>The same vault when the host has no leaf to give in the right sidebar.\<close>

definition noLeafHost :: "nat host" where
  "noLeafHost = exampleHost\<lparr>getRightLeaf := (\<lambda>b. None)\<rparr>"

definition exampleHover :: "string \<Rightarrow> HoverArgs" where
  "exampleHover t =
     \<lparr> parent = 0, targetEl = 1, linkText = t, sourcePath = ''Home.md'', state = None,
       args = [] \<rparr>"

definition examplePlugin :: plugin where
  "examplePlugin =
     \<lparr> settings = defaultSettings, currentSidebarLeaf = None, timers = [], calls = [],
       uncaught = [] \<rparr>"

section \<open>Properties\<close>

subsection \<open>Link classification\<close>

lemma obsidianParseLinktext_subpath:
  "subpath (obsidianParseLinktext t) = [] \<or> hd (subpath (obsidianParseLinktext t)) = CHR ''#''"
  using hd_dropWhile [of "\<lambda>c. c \<noteq> CHR ''#''" t]
  by (auto simp: obsidianParseLinktext_def)

lemma linkMode_modeSetting: "linkMode s parse t = modeSetting s (classify parse t)"
  by (simp add: linkMode_def classify_def Let_def)

text \<open>
  For any parser: when the subpath begins with \<^verbatim>\<open>#\<close>, which is the guard of the source, the
  three kinds are tried in the order footnote, block, heading.
\<close>

lemma classify_hash:
  assumes "subpath (parse t) \<noteq> []" and "hd (subpath (parse t)) = CHR ''#''"
  shows "classify parse t =
           (if prefix ''#[^'' (subpath (parse t)) then Footnote
            else if prefix ''#^'' (subpath (parse t)) then Block
            else Heading)"
  using assms by (simp add: classify_def Let_def)

text \<open>
  C2. Every link text whose parsed subpath is not empty is a footnote link when the subpath
  starts with \<^verbatim>\<open>#[^\<close>, else a block link when it starts with \<^verbatim>\<open>#^\<close>, else a heading link;
  the mode is the setting \<^verbatim>\<open>footnotes\<close>, \<^verbatim>\<open>blocks\<close> or \<^verbatim>\<open>headings\<close> accordingly. The footnote
  test comes before the block test, which comes before the heading case.
\<close>

theorem linkMode_subpath_precedence:
  assumes "subpath (obsidianParseLinktext t) \<noteq> []"
  shows "classify obsidianParseLinktext t =
           (if prefix ''#[^'' (subpath (obsidianParseLinktext t)) then Footnote
            else if prefix ''#^'' (subpath (obsidianParseLinktext t)) then Block
            else Heading)
         \<and> linkMode s obsidianParseLinktext t =
           (if prefix ''#[^'' (subpath (obsidianParseLinktext t)) then footnotes s
            else if prefix ''#^'' (subpath (obsidianParseLinktext t)) then blocks s
            else headings s)"
proof -
  have hd: "hd (subpath (obsidianParseLinktext t)) = CHR ''#''"
    using assms obsidianParseLinktext_subpath [of t] by simp
  have c: "classify obsidianParseLinktext t =
           (if prefix ''#[^'' (subpath (obsidianParseLinktext t)) then Footnote
            else if prefix ''#^'' (subpath (obsidianParseLinktext t)) then Block
            else Heading)"
    using classify_hash [of obsidianParseLinktext t] assms hd by simp
  show ?thesis
    unfolding linkMode_modeSetting c by simp
qed

theorem linkMode_subpath_precedence_witness:
  "subpath (obsidianParseLinktext ''Note#[^1]'') \<noteq> []
   \<and> classify obsidianParseLinktext ''Note#[^1]'' = Footnote
   \<and> linkMode defaultSettings obsidianParseLinktext ''Note#[^1]'' = ''native''
   \<and> classify obsidianParseLinktext ''Note#^blk'' = Block
   \<and> linkMode defaultSettings obsidianParseLinktext ''Note#^blk'' = ''floating''
   \<and> classify obsidianParseLinktext ''Note#Heading'' = Heading
   \<and> linkMode defaultSettings obsidianParseLinktext ''Note#Heading'' = ''sidebar''"
proof -
  have a: "subpath (obsidianParseLinktext ''Note#[^1]'') = ''#[^1]''"
    and b: "subpath (obsidianParseLinktext ''Note#^blk'') = ''#^blk''"
    and c: "subpath (obsidianParseLinktext ''Note#Heading'') = ''#Heading''"
    by (simp_all add: obsidianParseLinktext_def)
  show ?thesis
    using linkMode_subpath_precedence [of "''Note#[^1]''" defaultSettings]
      linkMode_subpath_precedence [of "''Note#^blk''" defaultSettings]
      linkMode_subpath_precedence [of "''Note#Heading''" defaultSettings]
    by (simp add: a b c defaultSettings_def)
qed

text \<open>
  C3. Every link text whose parsed subpath is empty is an embed, and takes the setting
  \<^verbatim>\<open>hoverEmbeds\<close>, when it starts with \<^verbatim>\<open>!\<close>; otherwise it is a regular link and takes the
  setting \<^verbatim>\<open>regularLinks\<close>. This holds whatever the parser is.
\<close>

theorem linkMode_no_subpath:
  assumes "subpath (parse t) = []"
  shows "classify parse t = (if prefix ''!'' t then Embed else Regular)
         \<and> linkMode s parse t = (if prefix ''!'' t then hoverEmbeds s else regularLinks s)"
  using assms by (simp add: classify_def linkMode_def Let_def)

theorem linkMode_no_subpath_witness:
  "subpath (obsidianParseLinktext ''!Picture.png'') = []
   \<and> classify obsidianParseLinktext ''!Picture.png'' = Embed
   \<and> linkMode (defaultSettings\<lparr>hoverEmbeds := ''floating''\<rparr>) obsidianParseLinktext
        ''!Picture.png'' = ''floating''
   \<and> subpath (obsidianParseLinktext ''Note'') = []
   \<and> classify obsidianParseLinktext ''Note'' = Regular
   \<and> linkMode defaultSettings obsidianParseLinktext ''Note'' = ''sidebar''"
proof -
  have a: "subpath (obsidianParseLinktext ''!Picture.png'') = []"
    and b: "subpath (obsidianParseLinktext ''Note'') = []"
    by (simp_all add: obsidianParseLinktext_def)
  show ?thesis
    using linkMode_no_subpath [of obsidianParseLinktext "''!Picture.png''"
          "defaultSettings\<lparr>hoverEmbeds := ''floating''\<rparr>"]
      linkMode_no_subpath [of obsidianParseLinktext "''Note''" defaultSettings]
    by (simp add: a b defaultSettings_def)
qed

subsection \<open>Dispatch of a hover\<close>

text \<open>
  C6. A hover whose mode is \<^verbatim>\<open>native\<close> is handed to the host's built-in hover preview with
  the arguments it came with, at once: one call is made, no timer is registered, and neither
  the floating popover nor the sidebar is touched.
\<close>

theorem native_mode_passes_through:
  assumes "linkMode (settings w) (parseLinktext h) (linkText a) = ''native''"
  shows "onLinkHover h a w = emit (NativeLinkHover a) w
         \<and> calls (onLinkHover h a w) = calls w @ [NativeLinkHover a]
         \<and> timers (onLinkHover h a w) = timers w
         \<and> currentSidebarLeaf (onLinkHover h a w) = currentSidebarLeaf w
         \<and> uncaught (onLinkHover h a w) = uncaught w
         \<and> settings (onLinkHover h a w) = settings w"
  using assms by (simp add: onLinkHover_def emit_def Let_def)

theorem native_mode_passes_through_witness:
  "linkMode (settings examplePlugin) (parseLinktext exampleHost)
     (linkText (exampleHover ''Note#[^1]'')) = ''native''
   \<and> calls (onLinkHover exampleHost (exampleHover ''Note#[^1]'') examplePlugin) =
       [NativeLinkHover (exampleHover ''Note#[^1]'')]
   \<and> timers (onLinkHover exampleHost (exampleHover ''Note#[^1]'') examplePlugin) = []"
proof -
  have m: "linkMode (settings examplePlugin) (parseLinktext exampleHost)
             (linkText (exampleHover ''Note#[^1]'')) = ''native''"
    by (simp add: linkMode_def Let_def examplePlugin_def exampleHost_def exampleHover_def
        defaultSettings_def obsidianParseLinktext_def)
  have e: "calls examplePlugin = []" "timers examplePlugin = []"
    by (simp_all add: examplePlugin_def)
  show ?thesis
    using native_mode_passes_through [of examplePlugin exampleHost "exampleHover ''Note#[^1]''"] m e
    by (simp add: emit_def)
qed

subsection \<open>The trigger delay\<close>

lemma settings_setTimeout: "settings (setTimeout t d w) = settings w"
  by (simp add: setTimeout_def)

lemma pendingHovers_setTimeout:
  "pendingHovers el (setTimeout (HandleHover mode a) d w) =
     (if targetEl a = el then Suc (pendingHovers el w) else pendingHovers el w)"
  by (simp add: pendingHovers_def setTimeout_def)

lemma onLinkHover_delayed:
  assumes "linkMode (settings w) (parseLinktext h) (linkText a) \<noteq> ''native''"
    and "0 < triggerDelay (settings w)"
  shows "onLinkHover h a w =
           setTimeout (HandleHover (linkMode (settings w) (parseLinktext h) (linkText a)) a)
             (triggerDelay (settings w)) w"
  using assms by (simp add: onLinkHover_def Let_def)

text \<open>
  C1, as amended. The resolver does not debounce. Every hover whose mode is not \<^verbatim>\<open>native\<close>,
  with a positive \<^verbatim>\<open>triggerDelay\<close>, registers exactly one timer for \<^verbatim>\<open>handleHover\<close> and makes no
  call, whatever is already pending: the number of pending hovers of its target grows by one,
  and a second hover on the same target, before anything fired, makes it grow by two.
\<close>

theorem hover_schedules_one_timer_each:
  assumes "linkMode (settings w) (parseLinktext h) (linkText a) \<noteq> ''native''"
    and "0 < triggerDelay (settings w)"
  shows "timers (onLinkHover h a w) =
           timers w @ [(triggerDelay (settings w),
                        HandleHover (linkMode (settings w) (parseLinktext h) (linkText a)) a)]
         \<and> calls (onLinkHover h a w) = calls w
         \<and> pendingHovers (targetEl a) (onLinkHover h a w) = Suc (pendingHovers (targetEl a) w)
         \<and> pendingHovers (targetEl a) (onLinkHover h a (onLinkHover h a w)) =
             Suc (Suc (pendingHovers (targetEl a) w))"
proof -
  let ?w1 = "onLinkHover h a w"
  have one: "?w1 = setTimeout (HandleHover (linkMode (settings w) (parseLinktext h) (linkText a)) a)
             (triggerDelay (settings w)) w"
    by (rule onLinkHover_delayed [OF assms])
  have s1: "settings ?w1 = settings w"
    by (simp add: one settings_setTimeout)
  have two: "onLinkHover h a ?w1 =
      setTimeout (HandleHover (linkMode (settings w) (parseLinktext h) (linkText a)) a)
             (triggerDelay (settings w)) ?w1"
  proof -
    have a1: "linkMode (settings ?w1) (parseLinktext h) (linkText a) \<noteq> ''native''"
      using assms(1) by (simp add: s1)
    have a2: "0 < triggerDelay (settings ?w1)"
      using assms(2) by (simp add: s1)
    show ?thesis
      using onLinkHover_delayed [OF a1 a2] by (simp only: s1)
  qed
  have p1: "pendingHovers (targetEl a) ?w1 = Suc (pendingHovers (targetEl a) w)"
    by (subst one) (simp add: pendingHovers_setTimeout)
  have p2: "pendingHovers (targetEl a) (onLinkHover h a ?w1) = Suc (pendingHovers (targetEl a) ?w1)"
    by (subst two) (simp add: pendingHovers_setTimeout)
  have t: "timers ?w1 = timers w @ [(triggerDelay (settings w),
                        HandleHover (linkMode (settings w) (parseLinktext h) (linkText a)) a)]"
    by (subst one) (simp add: setTimeout_def)
  have c: "calls ?w1 = calls w"
    by (subst one) (simp add: setTimeout_def)
  show ?thesis using t c p1 p2 by simp
qed

lemma example_regular_mode:
  "linkMode (settings examplePlugin) (parseLinktext exampleHost) (linkText (exampleHover ''Note'')) = ''sidebar''"
  by (simp add: linkMode_def Let_def examplePlugin_def exampleHost_def exampleHover_def
        defaultSettings_def obsidianParseLinktext_def)

theorem hover_schedules_one_timer_each_witness:
  "linkMode (settings examplePlugin) (parseLinktext exampleHost) (linkText (exampleHover ''Note'')) \<noteq> ''native''
   \<and> 0 < triggerDelay (settings examplePlugin)
   \<and> timers (onLinkHover exampleHost (exampleHover ''Note'') examplePlugin) =
       [(300, HandleHover ''sidebar'' (exampleHover ''Note''))]
   \<and> pendingHovers 1 (onLinkHover exampleHost (exampleHover ''Note'') examplePlugin) = 1"
proof -
  have d: "triggerDelay (settings examplePlugin) = 300" "timers examplePlugin = []"
    "targetEl (exampleHover ''Note'') = 1" "pendingHovers 1 examplePlugin = 0"
    by (simp_all add: examplePlugin_def defaultSettings_def exampleHover_def pendingHovers_def)
  show ?thesis
    using hover_schedules_one_timer_each [of examplePlugin exampleHost "exampleHover ''Note''"] d
    by (simp add: example_regular_mode)
qed

text \<open>
  C1 as stated fails: with the default settings a regular link is in sidebar mode with a delay
  of 300 ms; two hovers on the same target element, with no timer fired in between, leave two
  pending \<^verbatim>\<open>handleHover\<close> timers for that element.
\<close>

theorem rehover_schedules_second_timer:
  "targetEl (exampleHover ''Note'') = 1
   \<and> timers (onLinkHover exampleHost (exampleHover ''Note'') examplePlugin) =
       [(300, HandleHover ''sidebar'' (exampleHover ''Note''))]
   \<and> timers (onLinkHover exampleHost (exampleHover ''Note'')
        (onLinkHover exampleHost (exampleHover ''Note'') examplePlugin)) =
       [(300, HandleHover ''sidebar'' (exampleHover ''Note'')),
        (300, HandleHover ''sidebar'' (exampleHover ''Note''))]
   \<and> pendingHovers 1 (onLinkHover exampleHost (exampleHover ''Note'')
        (onLinkHover exampleHost (exampleHover ''Note'') examplePlugin)) = 2"
  by (simp add: pendingHovers_def onLinkHover_def linkMode_def Let_def exampleHost_def exampleHover_def examplePlugin_def defaultSettings_def obsidianParseLinktext_def setTimeout_def)

lemma handleHover_unresolved:
  assumes "getFirstLinkpathDest h (path (parseLinktext h (linkText a))) (sourcePath a) = None"
  shows "handleHover h mode a w = emit (NativeLinkHover a) w"
  using assms by (simp add: handleHover_def)

lemma index_append_length: "index (xs @ [x]) (length xs) = Some x"
  by (simp add: index_def)

lemma fireTimer_last:
  "fireTimer h (length (timers w)) (setTimeout t d w) = runTask h t w"
  by (simp add: fireTimer_def setTimeout_def index_append_length)

text \<open>
  C4. A hover in floating or sidebar mode whose link resolves to no file, when \<^verbatim>\<open>handleHover\<close>
  runs, ends in the host's built-in hover preview with the arguments it came with, and in
  nothing else. \<open>h\<close> is the host when the hover arrives, \<open>h'\<close> the host when \<^verbatim>\<open>handleHover\<close>
  runs: with a positive delay, when the timer registered by the hover fires; otherwise at
  once, and then \<open>h'\<close> is \<open>h\<close>. In both cases the plugin afterwards is the plugin before the
  hover with that one call appended: no timer is left, no sidebar leaf is acquired, no
  popover is opened.
\<close>

theorem unresolved_target_falls_back_to_native:
  assumes mode: "linkMode (settings w) (parseLinktext h) (linkText a) = ''floating''
                 \<or> linkMode (settings w) (parseLinktext h) (linkText a) = ''sidebar''"
    and unresolved: "getFirstLinkpathDest h' (path (parseLinktext h' (linkText a))) (sourcePath a) = None"
  shows "handleHover h' (linkMode (settings w) (parseLinktext h) (linkText a)) a w' =
           emit (NativeLinkHover a) w'
         \<and> (if 0 < triggerDelay (settings w)
            then fireTimer h' (length (timers w)) (onLinkHover h a w) = emit (NativeLinkHover a) w
            else h' = h \<longrightarrow> onLinkHover h a w = emit (NativeLinkHover a) w)"
proof -
  let ?mode = "linkMode (settings w) (parseLinktext h) (linkText a)"
  have nn: "?mode \<noteq> ''native''"
    using mode by auto
  have run: "\<And>m v. handleHover h' m a v = emit (NativeLinkHover a) v"
    by (rule handleHover_unresolved [OF unresolved])
  have delayed: "0 < triggerDelay (settings w) \<Longrightarrow>
      onLinkHover h a w = setTimeout (HandleHover ?mode a) (triggerDelay (settings w)) w"
    by (rule onLinkHover_delayed [OF nn])
  have fired: "0 < triggerDelay (settings w) \<Longrightarrow>
      fireTimer h' (length (timers w)) (onLinkHover h a w) = emit (NativeLinkHover a) w"
    by (simp add: delayed fireTimer_last run)
  have direct: "\<not> 0 < triggerDelay (settings w) \<Longrightarrow>
      h' = h \<Longrightarrow> onLinkHover h a w = emit (NativeLinkHover a) w"
    using nn run by (simp add: onLinkHover_def Let_def)
  show ?thesis
    using run fired direct by simp
qed
theorem unresolved_target_falls_back_to_native_witness:
  "(linkMode (settings examplePlugin) (parseLinktext exampleHost) (linkText (exampleHover ''Missing'')) = ''floating''
    \<or> linkMode (settings examplePlugin) (parseLinktext exampleHost) (linkText (exampleHover ''Missing'')) = ''sidebar'')
   \<and> getFirstLinkpathDest exampleHost
        (path (parseLinktext exampleHost (linkText (exampleHover ''Missing''))))
        (sourcePath (exampleHover ''Missing'')) = None
   \<and> 0 < triggerDelay (settings examplePlugin)
   \<and> fireTimer exampleHost 0 (onLinkHover exampleHost (exampleHover ''Missing'') examplePlugin) =
        examplePlugin\<lparr>calls := [NativeLinkHover (exampleHover ''Missing'')]\<rparr>"
proof -
  have m: "linkMode (settings examplePlugin) (parseLinktext exampleHost)
             (linkText (exampleHover ''Missing'')) = ''sidebar''"
    by (simp add: linkMode_def Let_def examplePlugin_def exampleHost_def exampleHover_def
        defaultSettings_def obsidianParseLinktext_def)
  have u: "getFirstLinkpathDest exampleHost
        (path (parseLinktext exampleHost (linkText (exampleHover ''Missing''))))
        (sourcePath (exampleHover ''Missing'')) = None"
    by (simp add: exampleHost_def exampleHover_def obsidianParseLinktext_def)
  have d: "triggerDelay (settings examplePlugin) = 300" "timers examplePlugin = []"
    "calls examplePlugin = []"
    by (simp_all add: examplePlugin_def defaultSettings_def)
  show ?thesis
    using unresolved_target_falls_back_to_native
      [of examplePlugin exampleHost "exampleHover ''Missing''" exampleHost examplePlugin] u d
    by (simp add: m emit_def)
qed

subsection \<open>The sidebar leaf\<close>

lemma ensureSidebarLeaf_live: "trackedLeafLive h w \<Longrightarrow> ensureSidebarLeaf h w = w"
  by (simp add: ensureSidebarLeaf_def)

lemma getLeaf_frame:
  "settings (getLeaf h w) = settings w" "timers (getLeaf h w) = timers w"
  "uncaught (getLeaf h w) = uncaught w"
  by (simp_all add: getLeaf_def emit_def split: option.splits)

lemma getLeaf_leaf:
  "currentSidebarLeaf (getLeaf h w) =
     (if sidebarPosition (settings w) = ''left''
      then nullish (getLeftLeaf h False) (getLeftLeaf h True)
      else nullish (getRightLeaf h False) (getRightLeaf h True))"
  by (simp add: getLeaf_def emit_def nullish_def split: option.splits)

lemma getLeaf_calls:
  "calls (getLeaf h w) = calls w @
     (if sidebarPosition (settings w) = ''left''
      then GetLeftLeaf False # (if getLeftLeaf h False = None then [GetLeftLeaf True] else [])
      else GetRightLeaf False # (if getRightLeaf h False = None then [GetRightLeaf True] else []))"
  by (simp add: getLeaf_def emit_def split: option.splits)

lemma ensureSidebarLeaf_frame:
  "settings (ensureSidebarLeaf h w) = settings w" "timers (ensureSidebarLeaf h w) = timers w"
  "uncaught (ensureSidebarLeaf h w) = uncaught w"
  by (simp_all add: ensureSidebarLeaf_def getLeaf_frame)

lemma ensureSidebarLeaf_calls:
  "calls (ensureSidebarLeaf h w) = calls w @
     (if trackedLeafLive h w then []
      else if sidebarPosition (settings w) = ''left''
      then GetLeftLeaf False # (if getLeftLeaf h False = None then [GetLeftLeaf True] else [])
      else GetRightLeaf False # (if getRightLeaf h False = None then [GetRightLeaf True] else []))"
  by (simp add: ensureSidebarLeaf_def getLeaf_calls)

lemma ensureSidebarLeaf_leaf:
  "currentSidebarLeaf (ensureSidebarLeaf h w) =
     (if trackedLeafLive h w then currentSidebarLeaf w
      else if sidebarPosition (settings w) = ''left''
      then nullish (getLeftLeaf h False) (getLeftLeaf h True)
      else nullish (getRightLeaf h False) (getRightLeaf h True))"
  by (simp add: ensureSidebarLeaf_def getLeaf_leaf)

lemma openFileInSidebar_leaf:
  "currentSidebarLeaf (openFileInSidebar h f t st w) = currentSidebarLeaf (ensureSidebarLeaf h w)"
  by (simp add: openFileInSidebar_def Let_def emit_def setTimeout_def split: option.splits)

lemma openFileInSidebar_calls:
  "calls (openFileInSidebar h f t st w) = calls (ensureSidebarLeaf h w) @
     (case currentSidebarLeaf (ensureSidebarLeaf h w) of
        None \<Rightarrow> []
      | Some l \<Rightarrow>
          SetViewState l (filePath f) (getViewMode h (settings w)) True
            # (if sidebarAutoReveal (settings w) then [RevealLeaf l] else [])
            @ (if sidebarAutoFocus (settings w) then [SetActiveLeaf l True] else []))"
  by (simp add: openFileInSidebar_def Let_def emit_def setTimeout_def ensureSidebarLeaf_frame
      split: option.splits)

lemma callsSince_append: "calls w' = calls w @ cs \<Longrightarrow> callsSince w w' = cs"
  by (simp add: callsSince_def)

text \<open>
  C5. The plugin tracks at most one sidebar leaf, the field \<^verbatim>\<open>currentSidebarLeaf\<close>. A call of
  \<^verbatim>\<open>openFileInSidebar\<close> that finds the tracked leaf present and not disposed keeps it and asks
  the host for no leaf. A call that finds it \<^verbatim>\<open>null\<close> or disposed asks the configured side:
  first \<^verbatim>\<open>getLeftLeaf(false)\<close> (or \<^verbatim>\<open>getRightLeaf(false)\<close>), and \<^verbatim>\<open>getLeftLeaf(true)\<close> only when
  that gave \<^verbatim>\<open>null\<close>; what it gets becomes the tracked leaf. Every call the function makes on
  a leaf is made on the tracked leaf.
\<close>

theorem single_tracked_sidebar_leaf:
  "(trackedLeafLive h w \<longrightarrow>
      currentSidebarLeaf (openFileInSidebar h f t st w) = currentSidebarLeaf w
      \<and> filter isLeafRequest (callsSince w (openFileInSidebar h f t st w)) = [])
   \<and> (\<not> trackedLeafLive h w \<longrightarrow>
      currentSidebarLeaf (openFileInSidebar h f t st w) =
        (if sidebarPosition (settings w) = ''left''
         then nullish (getLeftLeaf h False) (getLeftLeaf h True)
         else nullish (getRightLeaf h False) (getRightLeaf h True))
      \<and> filter isLeafRequest (callsSince w (openFileInSidebar h f t st w)) =
        (if sidebarPosition (settings w) = ''left''
         then GetLeftLeaf False # (if getLeftLeaf h False = None then [GetLeftLeaf True] else [])
         else GetRightLeaf False # (if getRightLeaf h False = None then [GetRightLeaf True] else [])))
   \<and> (\<forall>c \<in> set (callsSince w (openFileInSidebar h f t st w)).
        callLeaf c = None \<or> callLeaf c = currentSidebarLeaf (openFileInSidebar h f t st w))"
proof -
  let ?w' = "openFileInSidebar h f t st w"
  let ?reqs = "(if trackedLeafLive h w then []
      else if sidebarPosition (settings w) = ''left''
      then GetLeftLeaf False # (if getLeftLeaf h False = None then [GetLeftLeaf True] else [])
      else GetRightLeaf False # (if getRightLeaf h False = None then [GetRightLeaf True] else []))"
  let ?acts = "(case currentSidebarLeaf (ensureSidebarLeaf h w) of
        None \<Rightarrow> []
      | Some l \<Rightarrow>
          SetViewState l (filePath f) (getViewMode h (settings w)) True
            # (if sidebarAutoReveal (settings w) then [RevealLeaf l] else [])
            @ (if sidebarAutoFocus (settings w) then [SetActiveLeaf l True] else []))"
  have "calls ?w' = calls w @ (?reqs @ ?acts)"
    by (simp only: openFileInSidebar_calls ensureSidebarLeaf_calls append_assoc)
  then have since: "callsSince w ?w' = ?reqs @ ?acts"
    by (rule callsSince_append)
  have acts_req: "filter isLeafRequest ?acts = []"
    by (simp split: option.splits)
  have reqs_req: "filter isLeafRequest ?reqs = ?reqs"
    by simp
  have reqs_leaf: "\<forall>c \<in> set ?reqs. callLeaf c = None"
    by simp
  have acts_leaf: "\<forall>c \<in> set ?acts. callLeaf c = currentSidebarLeaf ?w'"
    by (auto simp add: openFileInSidebar_leaf split: option.splits)
  have leaf: "currentSidebarLeaf ?w' =
     (if trackedLeafLive h w then currentSidebarLeaf w
      else if sidebarPosition (settings w) = ''left''
      then nullish (getLeftLeaf h False) (getLeftLeaf h True)
      else nullish (getRightLeaf h False) (getRightLeaf h True))"
    by (simp only: openFileInSidebar_leaf ensureSidebarLeaf_leaf)
  have filt: "filter isLeafRequest (callsSince w ?w') = ?reqs"
    by (simp only: since filter_append acts_req reqs_req append_Nil2)
  have routed: "\<forall>c \<in> set (callsSince w ?w'). callLeaf c = None \<or> callLeaf c = currentSidebarLeaf ?w'"
    using reqs_leaf acts_leaf by (auto simp only: since set_append)
  show ?thesis
    using leaf filt routed by simp
qed

lemma example_tracking:
  "\<not> trackedLeafLive exampleHost examplePlugin"
  "trackedLeafLive exampleHost (examplePlugin\<lparr>currentSidebarLeaf := Some 7\<rparr>)"
  "sidebarPosition (settings examplePlugin) = ''right''"
  "settings (examplePlugin\<lparr>currentSidebarLeaf := Some 7\<rparr>) = settings examplePlugin"
  "getRightLeaf exampleHost False = None" "getRightLeaf exampleHost True = Some 7"
  by (simp_all add: trackedLeafLive_def exampleHost_def examplePlugin_def defaultSettings_def)

theorem single_tracked_sidebar_leaf_witness:
  "\<not> trackedLeafLive exampleHost examplePlugin
   \<and> currentSidebarLeaf (openFileInSidebar exampleHost (TFile ''Note.md'') ''Note'' None examplePlugin)
       = Some 7
   \<and> filter isLeafRequest (callsSince examplePlugin
         (openFileInSidebar exampleHost (TFile ''Note.md'') ''Note'' None examplePlugin))
       = [GetRightLeaf False, GetRightLeaf True]
   \<and> trackedLeafLive exampleHost (examplePlugin\<lparr>currentSidebarLeaf := Some 7\<rparr>)
   \<and> currentSidebarLeaf (openFileInSidebar exampleHost (TFile ''Note.md'') ''Note'' None
         (examplePlugin\<lparr>currentSidebarLeaf := Some 7\<rparr>))
       = Some 7
   \<and> filter isLeafRequest (callsSince (examplePlugin\<lparr>currentSidebarLeaf := Some 7\<rparr>)
         (openFileInSidebar exampleHost (TFile ''Note.md'') ''Note'' None
           (examplePlugin\<lparr>currentSidebarLeaf := Some 7\<rparr>)))
       = []"
proof -
  have fresh: "currentSidebarLeaf (openFileInSidebar exampleHost (TFile ''Note.md'') ''Note'' None examplePlugin)
       = Some 7
     \<and> filter isLeafRequest (callsSince examplePlugin
         (openFileInSidebar exampleHost (TFile ''Note.md'') ''Note'' None examplePlugin))
       = [GetRightLeaf False, GetRightLeaf True]"
    using single_tracked_sidebar_leaf [of exampleHost examplePlugin "TFile ''Note.md''" "''Note''" None]
    by (simp add: example_tracking nullish_def)
  have reuse: "currentSidebarLeaf (openFileInSidebar exampleHost (TFile ''Note.md'') ''Note'' None
         (examplePlugin\<lparr>currentSidebarLeaf := Some 7\<rparr>))
       = Some 7
     \<and> filter isLeafRequest (callsSince (examplePlugin\<lparr>currentSidebarLeaf := Some 7\<rparr>)
         (openFileInSidebar exampleHost (TFile ''Note.md'') ''Note'' None
           (examplePlugin\<lparr>currentSidebarLeaf := Some 7\<rparr>)))
       = []"
    using single_tracked_sidebar_leaf [of exampleHost "examplePlugin\<lparr>currentSidebarLeaf := Some 7\<rparr>"
        "TFile ''Note.md''" "''Note''" None]
    by (simp add: example_tracking)
  show ?thesis
    using fresh reuse example_tracking(1,2) by simp
qed

text \<open>
  When the host has no leaf to give, the call fails before it opens, reveals or focuses
  anything.
\<close>

lemma openFileInSidebar_no_leaf:
  assumes "currentSidebarLeaf (ensureSidebarLeaf h w) = None"
  shows "openFileInSidebar h f t st w =
           (ensureSidebarLeaf h w)\<lparr>uncaught := uncaught w @ [TypeError]\<rparr>"
  using assms by (simp add: openFileInSidebar_def ensureSidebarLeaf_frame)

text \<open>
  The two steps at the end of \<^verbatim>\<open>openFileInSidebar\<close>, for a call that has a leaf \<open>l\<close>:
  \<^verbatim>\<open>revealLeaf(l)\<close> is called exactly when \<^verbatim>\<open>sidebarAutoReveal\<close> is set, and
  \<^verbatim>\<open>setActiveLeaf(l, { focus: true })\<close> exactly when \<^verbatim>\<open>sidebarAutoFocus\<close> is set; each setting
  decides its own call only.
\<close>

lemma reveal_and_focus_steps:
  assumes "currentSidebarLeaf (openFileInSidebar h f t st w) = Some l"
  shows "filter isRevealLeaf (callsSince w (openFileInSidebar h f t st w)) =
           (if sidebarAutoReveal (settings w) then [RevealLeaf l] else [])
         \<and> filter isSetActiveLeaf (callsSince w (openFileInSidebar h f t st w)) =
           (if sidebarAutoFocus (settings w) then [SetActiveLeaf l True] else [])
         \<and> (RevealLeaf l \<in> set (callsSince w (openFileInSidebar h f t st w)))
             = sidebarAutoReveal (settings w)
         \<and> (SetActiveLeaf l True \<in> set (callsSince w (openFileInSidebar h f t st w)))
             = sidebarAutoFocus (settings w)"
proof -
  let ?w' = "openFileInSidebar h f t st w"
  let ?reqs = "(if trackedLeafLive h w then []
      else if sidebarPosition (settings w) = ''left''
      then GetLeftLeaf False # (if getLeftLeaf h False = None then [GetLeftLeaf True] else [])
      else GetRightLeaf False # (if getRightLeaf h False = None then [GetRightLeaf True] else []))"
  let ?acts = "SetViewState l (filePath f) (getViewMode h (settings w)) True
            # (if sidebarAutoReveal (settings w) then [RevealLeaf l] else [])
            @ (if sidebarAutoFocus (settings w) then [SetActiveLeaf l True] else [])"
  have tracked: "currentSidebarLeaf (ensureSidebarLeaf h w) = Some l"
    using assms by (simp only: openFileInSidebar_leaf)
  have "calls ?w' = calls w @ (?reqs @ ?acts)"
    by (simp only: openFileInSidebar_calls ensureSidebarLeaf_calls append_assoc tracked option.case)
  then have since: "callsSince w ?w' = ?reqs @ ?acts"
    by (rule callsSince_append)
  have r1: "filter isRevealLeaf ?reqs = []" and r2: "filter isSetActiveLeaf ?reqs = []"
    and r3: "RevealLeaf l \<notin> set ?reqs" and r4: "SetActiveLeaf l True \<notin> set ?reqs"
    by simp_all
  have a1: "filter isRevealLeaf ?acts = (if sidebarAutoReveal (settings w) then [RevealLeaf l] else [])"
    and a2: "filter isSetActiveLeaf ?acts =
           (if sidebarAutoFocus (settings w) then [SetActiveLeaf l True] else [])"
    and a3: "(RevealLeaf l \<in> set ?acts) = sidebarAutoReveal (settings w)"
    and a4: "(SetActiveLeaf l True \<in> set ?acts) = sidebarAutoFocus (settings w)"
    by simp_all
  have c1: "filter isRevealLeaf (callsSince w ?w') =
           (if sidebarAutoReveal (settings w) then [RevealLeaf l] else [])"
    by (simp only: since filter_append r1 a1 append_Nil)
  have c2: "filter isSetActiveLeaf (callsSince w ?w') =
           (if sidebarAutoFocus (settings w) then [SetActiveLeaf l True] else [])"
    by (simp only: since filter_append r2 a2 append_Nil)
  have c3: "(RevealLeaf l \<in> set (callsSince w ?w')) = sidebarAutoReveal (settings w)"
    using r3 a3 by (simp only: since set_append Un_iff) simp
  have c4: "(SetActiveLeaf l True \<in> set (callsSince w ?w')) = sidebarAutoFocus (settings w)"
    using r4 a4 by (simp only: since set_append Un_iff) simp
  show ?thesis
    using c1 c2 c3 c4 by simp
qed

text \<open>
  Before the two steps, the view is opened with \<^verbatim>\<open>active: true\<close> in every call that has a leaf,
  whatever \<^verbatim>\<open>sidebarAutoFocus\<close> is: the leaf is asked to become the active one once when the
  setting is off and twice when it is on.
\<close>

lemma openFileInSidebar_opens_active:
  assumes "currentSidebarLeaf (openFileInSidebar h f t st w) = Some l"
  shows "map makesActive (filter (\<lambda>c. makesActive c \<noteq> None)
           (callsSince w (openFileInSidebar h f t st w))) =
           Some l # (if sidebarAutoFocus (settings w) then [Some l] else [])
         \<and> SetViewState l (filePath f) (getViewMode h (settings w)) True
             \<in> set (callsSince w (openFileInSidebar h f t st w))"
proof -
  let ?w' = "openFileInSidebar h f t st w"
  let ?reqs = "(if trackedLeafLive h w then []
      else if sidebarPosition (settings w) = ''left''
      then GetLeftLeaf False # (if getLeftLeaf h False = None then [GetLeftLeaf True] else [])
      else GetRightLeaf False # (if getRightLeaf h False = None then [GetRightLeaf True] else []))"
  let ?acts = "SetViewState l (filePath f) (getViewMode h (settings w)) True
            # (if sidebarAutoReveal (settings w) then [RevealLeaf l] else [])
            @ (if sidebarAutoFocus (settings w) then [SetActiveLeaf l True] else [])"
  have tracked: "currentSidebarLeaf (ensureSidebarLeaf h w) = Some l"
    using assms by (simp only: openFileInSidebar_leaf)
  have "calls ?w' = calls w @ (?reqs @ ?acts)"
    by (simp only: openFileInSidebar_calls ensureSidebarLeaf_calls append_assoc tracked option.case)
  then have since: "callsSince w ?w' = ?reqs @ ?acts"
    by (rule callsSince_append)
  have r: "filter (\<lambda>c. makesActive c \<noteq> None) ?reqs = []"
    by simp
  have a: "map makesActive (filter (\<lambda>c. makesActive c \<noteq> None) ?acts) =
             Some l # (if sidebarAutoFocus (settings w) then [Some l] else [])"
    by simp
  have m: "SetViewState l (filePath f) (getViewMode h (settings w)) True \<in> set (?reqs @ ?acts)"
    by simp
  have "map makesActive (filter (\<lambda>c. makesActive c \<noteq> None) (callsSince w ?w')) =
           Some l # (if sidebarAutoFocus (settings w) then [Some l] else [])"
    by (simp only: since filter_append r a append_Nil)
  then show ?thesis
    using m by (simp only: since)
qed

text \<open>
  A call for which the host has no leaf reveals and focuses nothing, whatever the settings
  are, and ends in an uncaught TypeError.
\<close>

lemma openFileInSidebar_no_leaf_calls:
  assumes "currentSidebarLeaf (openFileInSidebar h f t st w) = None"
  shows "filter isRevealLeaf (callsSince w (openFileInSidebar h f t st w)) = []
         \<and> filter isSetActiveLeaf (callsSince w (openFileInSidebar h f t st w)) = []
         \<and> uncaught (openFileInSidebar h f t st w) = uncaught w @ [TypeError]"
proof -
  let ?w' = "openFileInSidebar h f t st w"
  let ?reqs = "(if trackedLeafLive h w then []
      else if sidebarPosition (settings w) = ''left''
      then GetLeftLeaf False # (if getLeftLeaf h False = None then [GetLeftLeaf True] else [])
      else GetRightLeaf False # (if getRightLeaf h False = None then [GetRightLeaf True] else []))"
  have none: "currentSidebarLeaf (ensureSidebarLeaf h w) = None"
    using assms by (simp only: openFileInSidebar_leaf)
  have "calls ?w' = calls w @ (?reqs @ [])"
    by (simp only: openFileInSidebar_calls ensureSidebarLeaf_calls append_assoc none option.case)
  then have since: "callsSince w ?w' = ?reqs @ []"
    by (rule callsSince_append)
  have u: "uncaught ?w' = uncaught w @ [TypeError]"
    by (simp add: openFileInSidebar_no_leaf [OF none])
  have "filter isRevealLeaf ?reqs = []" and "filter isSetActiveLeaf ?reqs = []"
    by simp_all
  then show ?thesis
    using u by (simp only: since append_Nil2)
qed

lemma example_sidebar_calls:
  "callsSince examplePlugin
     (openFileInSidebar exampleHost (TFile ''Note.md'') ''Note#Heading'' None examplePlugin) =
     [GetRightLeaf False, GetRightLeaf True, SetViewState 7 ''Note.md'' ''preview'' True,
      RevealLeaf 7]"
proof -
  have l: "currentSidebarLeaf (ensureSidebarLeaf exampleHost examplePlugin) = Some 7"
    by (simp add: ensureSidebarLeaf_leaf example_tracking nullish_def)
  have s: "sidebarAutoReveal (settings examplePlugin)" "\<not> sidebarAutoFocus (settings examplePlugin)"
    "getViewMode exampleHost (settings examplePlugin) = ''preview''"
    by (simp_all add: examplePlugin_def defaultSettings_def getViewMode_def exampleHost_def)
  have "calls (openFileInSidebar exampleHost (TFile ''Note.md'') ''Note#Heading'' None examplePlugin) =
      calls examplePlugin @ [GetRightLeaf False, GetRightLeaf True,
         SetViewState 7 ''Note.md'' ''preview'' True, RevealLeaf 7]"
    by (simp add: openFileInSidebar_calls ensureSidebarLeaf_calls l s example_tracking)
  then show ?thesis
    by (rule callsSince_append)
qed

text \<open>
  C9 does not hold of the code. In the scenario of the specification (the default settings:
  \<^verbatim>\<open>sidebarAutoReveal\<close> on, \<^verbatim>\<open>sidebarAutoFocus\<close> off; the link \<^verbatim>\<open>Note#Heading\<close>) the sidebar leaf 7
  is revealed and \<^verbatim>\<open>setActiveLeaf\<close> is not called, but the view was opened in it with
  \<^verbatim>\<open>active: true\<close>, which asks the host to make leaf 7 the active one. And when the host has no
  leaf to give, nothing is revealed although \<^verbatim>\<open>sidebarAutoReveal\<close> is on: the call fails with
  a TypeError after the two requests for a leaf.
\<close>

theorem sidebar_made_active_without_autofocus:
  "sidebarAutoReveal (settings examplePlugin) \<and> \<not> sidebarAutoFocus (settings examplePlugin)
   \<and> callsSince examplePlugin
        (openFileInSidebar exampleHost (TFile ''Note.md'') ''Note#Heading'' None examplePlugin) =
        [GetRightLeaf False, GetRightLeaf True, SetViewState 7 ''Note.md'' ''preview'' True,
         RevealLeaf 7]
   \<and> makesActive (SetViewState 7 ''Note.md'' ''preview'' True) = Some 7
   \<and> callsSince examplePlugin
        (openFileInSidebar noLeafHost (TFile ''Note.md'') ''Note#Heading'' None examplePlugin) =
        [GetRightLeaf False, GetRightLeaf True]
   \<and> uncaught (openFileInSidebar noLeafHost (TFile ''Note.md'') ''Note#Heading'' None examplePlugin)
        = [TypeError]"
proof -
  have s: "sidebarAutoReveal (settings examplePlugin)" "\<not> sidebarAutoFocus (settings examplePlugin)"
    by (simp_all add: examplePlugin_def defaultSettings_def)
  have n: "\<not> trackedLeafLive noLeafHost examplePlugin"
    "getRightLeaf noLeafHost False = None" "getRightLeaf noLeafHost True = None"
    "uncaught examplePlugin = []"
    by (simp_all add: trackedLeafLive_def noLeafHost_def examplePlugin_def)
  have nl: "currentSidebarLeaf (ensureSidebarLeaf noLeafHost examplePlugin) = None"
    by (simp add: ensureSidebarLeaf_leaf n example_tracking nullish_def)
  have "calls (openFileInSidebar noLeafHost (TFile ''Note.md'') ''Note#Heading'' None examplePlugin) =
      calls examplePlugin @ [GetRightLeaf False, GetRightLeaf True]"
    by (simp add: openFileInSidebar_calls ensureSidebarLeaf_calls nl n example_tracking)
  then have c: "callsSince examplePlugin
        (openFileInSidebar noLeafHost (TFile ''Note.md'') ''Note#Heading'' None examplePlugin) =
        [GetRightLeaf False, GetRightLeaf True]"
    by (rule callsSince_append)
  have u: "uncaught (openFileInSidebar noLeafHost (TFile ''Note.md'') ''Note#Heading'' None examplePlugin)
        = [TypeError]"
    by (simp add: openFileInSidebar_no_leaf [OF nl] n)
  show ?thesis
    using s example_sidebar_calls c u by simp
qed

subsection \<open>The ephemeral state\<close>

lemma split_not_Nil: "split c xs \<noteq> []"
  by (induction xs) (auto split: list.splits)

lemma split_hd: "hd (split c xs) = takeWhile (\<lambda>x. x \<noteq> c) xs"
  by (induction xs) (auto simp: split_not_Nil split: list.splits)

lemma split_tl:
  "c \<in> set xs \<Longrightarrow> tl (split c xs) = split c (tl (dropWhile (\<lambda>x. x \<noteq> c) xs))"
  by (induction xs) (auto simp: split_not_Nil split: list.splits)

text \<open>
  With the separator in the text, the piece at index 1 exists: it is the text between the
  first separator and the next one, or the end.
\<close>

lemma index_split_hash:
  assumes "c \<in> set xs"
  shows "index (split c xs) (Suc 0) = Some (takeWhile (\<lambda>x. x \<noteq> c) (tl (dropWhile (\<lambda>x. x \<noteq> c) xs)))"
proof -
  let ?rest = "tl (dropWhile (\<lambda>x. x \<noteq> c) xs)"
  obtain y ys where s: "split c xs = y # ys"
    using split_not_Nil [of c xs] by (auto simp: neq_Nil_conv)
  have ys: "ys = split c ?rest"
    using split_tl [OF assms] s by simp
  obtain z zs where t: "split c ?rest = z # zs"
    using split_not_Nil [of c ?rest] by (auto simp: neq_Nil_conv)
  have "hd (split c ?rest) = z"
    by (simp add: t)
  then have z: "z = takeWhile (\<lambda>x. x \<noteq> c) ?rest"
    by (simp add: split_hd)
  show ?thesis
    by (simp add: index_def s ys t z)
qed

lemma anchorOf_eq:
  "anchorOf t =
     (if CHR ''#'' \<in> set t
      then takeWhile (\<lambda>x. x \<noteq> CHR ''#'') (tl (dropWhile (\<lambda>x. x \<noteq> CHR ''#'') t))
      else [])"
  by (simp add: anchorOf_def index_split_hash)

lemma buildEphemeralState_subpath:
  "buildEphemeralState h f t oldState ''subpath'' =
     (case spread oldState ''subpath'' of
        Some v \<Rightarrow> Some v
      | None \<Rightarrow> Some (if anchorOf t \<noteq> [] then JStr (CHR ''#'' # anchorOf t) else JUndefined))"
  by (simp add: buildEphemeralState_def Let_def map_add_def split: option.splits)

lemma buildEphemeralState_resolved:
  assumes "getFileCache h f = Some c" and "resolveSubpath h c (anchorOf t) = Some r"
  shows "buildEphemeralState h f t oldState ''line'' = Some (JNum (line (res_start r)))"
    and "buildEphemeralState h f t oldState ''startLoc'' = Some (JLoc (res_start r))"
    and "buildEphemeralState h f t oldState ''endLoc'' =
           Some (case res_end r of None \<Rightarrow> JNull | Some l \<Rightarrow> JLoc l)"
  using assms by (simp_all add: buildEphemeralState_def Let_def)

text \<open>
  A link text with exactly one \<^verbatim>\<open>#\<close>: the text after the \<^verbatim>\<open>#\<close> has none. Then the anchor is
  all the text after the \<^verbatim>\<open>#\<close>, and \<^verbatim>\<open>#\<close> followed by the anchor is the text from the \<^verbatim>\<open>#\<close> on.
\<close>

lemma one_hash_anchor:
  assumes "CHR ''#'' \<in> set t"
    and "CHR ''#'' \<notin> set (tl (dropWhile (\<lambda>x. x \<noteq> CHR ''#'') t))"
  shows "anchorOf t = tl (dropWhile (\<lambda>x. x \<noteq> CHR ''#'') t)"
    and "CHR ''#'' # anchorOf t = dropWhile (\<lambda>x. x \<noteq> CHR ''#'') t"
proof -
  let ?drop = "dropWhile (\<lambda>x. x \<noteq> CHR ''#'') t"
  have tw: "takeWhile (\<lambda>x. x \<noteq> CHR ''#'') (tl ?drop) = tl ?drop"
    using assms(2) by (auto simp: takeWhile_eq_all_conv)
  have "anchorOf t = takeWhile (\<lambda>x. x \<noteq> CHR ''#'') (tl ?drop)"
    using assms(1) by (simp only: anchorOf_eq if_True)
  then show a: "anchorOf t = tl ?drop"
    by (simp only: tw)
  have "\<exists>x \<in> set t. \<not> x \<noteq> CHR ''#''"
    using assms(1) by blast
  then have ne: "?drop \<noteq> []"
    by (simp only: dropWhile_eq_Nil_conv) blast
  have "\<not> hd ?drop \<noteq> CHR ''#''"
    by (rule hd_dropWhile [OF ne])
  then have hd: "hd ?drop = CHR ''#''"
    by blast
  have "hd ?drop # tl ?drop = ?drop"
    using ne by (rule hd_Cons_tl)
  then show "CHR ''#'' # anchorOf t = ?drop"
    by (simp only: hd a)
qed

text \<open>
  C7, as amended. For every link text with exactly one \<^verbatim>\<open>#\<close>: when the incoming state has a
  property \<^verbatim>\<open>subpath\<close>, the ephemeral state's \<^verbatim>\<open>subpath\<close> is that property's value; otherwise it
  is the text from the \<^verbatim>\<open>#\<close> on when something follows the \<^verbatim>\<open>#\<close>, and \<^verbatim>\<open>undefined\<close> when nothing
  follows it; in each case whether or not the anchor resolves. The anchor looked up in the
  file's cache is the text after the \<^verbatim>\<open>#\<close>. For every link text, whenever the anchor that is
  looked up resolves, \<^verbatim>\<open>line\<close>, \<^verbatim>\<open>startLoc\<close> and \<^verbatim>\<open>endLoc\<close> are the resolved ones.
\<close>

theorem buildEphemeralState_anchor_hint:
  "(CHR ''#'' \<in> set t \<and> CHR ''#'' \<notin> set (tl (dropWhile (\<lambda>x. x \<noteq> CHR ''#'') t)) \<longrightarrow>
      anchorOf t = tl (dropWhile (\<lambda>x. x \<noteq> CHR ''#'') t)
      \<and> buildEphemeralState h f t oldState ''subpath'' =
          (case spread oldState ''subpath'' of
             Some v \<Rightarrow> Some v
           | None \<Rightarrow>
               Some (if tl (dropWhile (\<lambda>x. x \<noteq> CHR ''#'') t) = [] then JUndefined
                     else JStr (dropWhile (\<lambda>x. x \<noteq> CHR ''#'') t))))
   \<and> (getFileCache h f = Some c \<and> resolveSubpath h c (anchorOf t) = Some r \<longrightarrow>
        buildEphemeralState h f t oldState ''line'' = Some (JNum (line (res_start r)))
        \<and> buildEphemeralState h f t oldState ''startLoc'' = Some (JLoc (res_start r))
        \<and> buildEphemeralState h f t oldState ''endLoc'' =
            Some (case res_end r of None \<Rightarrow> JNull | Some l \<Rightarrow> JLoc l))"
proof -
  have a: "CHR ''#'' \<in> set t \<and> CHR ''#'' \<notin> set (tl (dropWhile (\<lambda>x. x \<noteq> CHR ''#'') t)) \<longrightarrow>
      anchorOf t = tl (dropWhile (\<lambda>x. x \<noteq> CHR ''#'') t)
      \<and> buildEphemeralState h f t oldState ''subpath'' =
          (case spread oldState ''subpath'' of
             Some v \<Rightarrow> Some v
           | None \<Rightarrow>
               Some (if tl (dropWhile (\<lambda>x. x \<noteq> CHR ''#'') t) = [] then JUndefined
                     else JStr (dropWhile (\<lambda>x. x \<noteq> CHR ''#'') t)))"
  proof (intro impI, elim conjE)
    assume h1: "CHR ''#'' \<in> set t"
      and h2: "CHR ''#'' \<notin> set (tl (dropWhile (\<lambda>x. x \<noteq> CHR ''#'') t))"
    have e1: "anchorOf t = tl (dropWhile (\<lambda>x. x \<noteq> CHR ''#'') t)"
      by (rule one_hash_anchor(1) [OF h1 h2])
    have e2: "CHR ''#'' # anchorOf t = dropWhile (\<lambda>x. x \<noteq> CHR ''#'') t"
      by (rule one_hash_anchor(2) [OF h1 h2])
    have "buildEphemeralState h f t oldState ''subpath'' =
          (case spread oldState ''subpath'' of
             Some v \<Rightarrow> Some v
           | None \<Rightarrow>
               Some (if anchorOf t = [] then JUndefined else JStr (CHR ''#'' # anchorOf t)))"
      by (simp add: buildEphemeralState_subpath split: option.splits)
    then have "buildEphemeralState h f t oldState ''subpath'' =
          (case spread oldState ''subpath'' of
             Some v \<Rightarrow> Some v
           | None \<Rightarrow>
               Some (if anchorOf t = [] then JUndefined
                     else JStr (dropWhile (\<lambda>x. x \<noteq> CHR ''#'') t)))"
      by (simp only: e2)
    then have "buildEphemeralState h f t oldState ''subpath'' =
          (case spread oldState ''subpath'' of
             Some v \<Rightarrow> Some v
           | None \<Rightarrow>
               Some (if tl (dropWhile (\<lambda>x. x \<noteq> CHR ''#'') t) = [] then JUndefined
                     else JStr (dropWhile (\<lambda>x. x \<noteq> CHR ''#'') t)))"
      by (simp only: e1)
    with e1 show "anchorOf t = tl (dropWhile (\<lambda>x. x \<noteq> CHR ''#'') t)
      \<and> buildEphemeralState h f t oldState ''subpath'' =
          (case spread oldState ''subpath'' of
             Some v \<Rightarrow> Some v
           | None \<Rightarrow>
               Some (if tl (dropWhile (\<lambda>x. x \<noteq> CHR ''#'') t) = [] then JUndefined
                     else JStr (dropWhile (\<lambda>x. x \<noteq> CHR ''#'') t)))"
      by (rule conjI)
  qed
  have b: "getFileCache h f = Some c \<and> resolveSubpath h c (anchorOf t) = Some r \<longrightarrow>
        buildEphemeralState h f t oldState ''line'' = Some (JNum (line (res_start r)))
        \<and> buildEphemeralState h f t oldState ''startLoc'' = Some (JLoc (res_start r))
        \<and> buildEphemeralState h f t oldState ''endLoc'' =
            Some (case res_end r of None \<Rightarrow> JNull | Some l \<Rightarrow> JLoc l)"
    using buildEphemeralState_resolved [of h f c t r oldState] by blast
  show ?thesis
    using a b by blast
qed

lemma example_anchor:
  "anchorOf ''Note#Heading'' = ''Heading''" "anchorOf ''Note#Gone'' = ''Gone''"
  "anchorOf ''Note#'' = []" "anchorOf ''Note#A#B'' = ''A''"
  by (simp_all add: anchorOf_eq)

theorem buildEphemeralState_anchor_hint_witness:
  "CHR ''#'' \<in> set ''Note#Heading''
   \<and> CHR ''#'' \<notin> set (tl (dropWhile (\<lambda>x. x \<noteq> CHR ''#'') ''Note#Heading''))
   \<and> buildEphemeralState exampleHost (TFile ''Note.md'') ''Note#Heading'' None ''subpath'' =
        Some (JStr ''#Heading'')
   \<and> getFileCache exampleHost (TFile ''Note.md'') = Some 0
   \<and> resolveSubpath exampleHost 0 (anchorOf ''Note#Heading'') =
        Some \<lparr> res_start = \<lparr> line = 4, col = 0, offset = 40 \<rparr>, res_end = None \<rparr>
   \<and> buildEphemeralState exampleHost (TFile ''Note.md'') ''Note#Heading'' None ''line'' =
        Some (JNum 4)
   \<and> buildEphemeralState exampleHost (TFile ''Note.md'') ''Note#Heading'' None ''endLoc'' =
        Some JNull
   \<and> buildEphemeralState exampleHost (TFile ''Note.md'') ''Note#Heading''
        (Some [''subpath'' \<mapsto> JStr ''#Other'']) ''subpath'' = Some (JStr ''#Other'')
   \<and> CHR ''#'' \<in> set ''Note#Gone''
   \<and> CHR ''#'' \<notin> set (tl (dropWhile (\<lambda>x. x \<noteq> CHR ''#'') ''Note#Gone''))
   \<and> resolveSubpath exampleHost 0 (anchorOf ''Note#Gone'') = None
   \<and> buildEphemeralState exampleHost (TFile ''Note.md'') ''Note#Gone'' None ''subpath'' =
        Some (JStr ''#Gone'')
   \<and> CHR ''#'' \<in> set ''Note#''
   \<and> CHR ''#'' \<notin> set (tl (dropWhile (\<lambda>x. x \<noteq> CHR ''#'') ''Note#''))
   \<and> buildEphemeralState exampleHost (TFile ''Note.md'') ''Note#'' None ''subpath'' =
        Some JUndefined"
proof -
  have h: "getFileCache exampleHost (TFile ''Note.md'') = Some 0"
    "resolveSubpath exampleHost 0 ''Heading'' =
        Some \<lparr> res_start = \<lparr> line = 4, col = 0, offset = 40 \<rparr>, res_end = None \<rparr>"
    "resolveSubpath exampleHost 0 ''Gone'' = None"
    "spread None ''subpath'' = None"
    "spread (Some [''subpath'' \<mapsto> JStr ''#Other'']) ''subpath'' = Some (JStr ''#Other'')"
    by (simp_all add: exampleHost_def spread_def)
  show ?thesis
    using buildEphemeralState_anchor_hint [of "''Note#Heading''" exampleHost "TFile ''Note.md''" None 0
        "\<lparr> res_start = \<lparr> line = 4, col = 0, offset = 40 \<rparr>, res_end = None \<rparr>"]
      buildEphemeralState_anchor_hint [of "''Note#Heading''" exampleHost "TFile ''Note.md''"
        "Some [''subpath'' \<mapsto> JStr ''#Other'']"]
      buildEphemeralState_anchor_hint [of "''Note#Gone''" exampleHost "TFile ''Note.md''" None]
      buildEphemeralState_anchor_hint [of "''Note#''" exampleHost "TFile ''Note.md''" None] h
    by (simp add: example_anchor)
qed

text \<open>
  C7 as stated fails. The link text \<^verbatim>\<open>Note#\<close> contains \<^verbatim>\<open>#\<close> and the \<^verbatim>\<open>subpath\<close> of its
  ephemeral state is \<^verbatim>\<open>undefined\<close>; and a \<^verbatim>\<open>subpath\<close> of the incoming state replaces the one of
  the link text, because the spread comes last.
\<close>

theorem anchor_hint_dropped:
  "CHR ''#'' \<in> set ''Note#''
   \<and> buildEphemeralState exampleHost (TFile ''Note.md'') ''Note#'' None ''subpath'' = Some JUndefined
   \<and> CHR ''#'' \<in> set ''Note#Heading''
   \<and> buildEphemeralState exampleHost (TFile ''Note.md'') ''Note#Heading''
        (Some [''subpath'' \<mapsto> JStr ''#Other'']) ''subpath'' = Some (JStr ''#Other'')"
  by (simp add: buildEphemeralState_subpath example_anchor spread_def)

subsection \<open>Loading the settings\<close>

lemma loadSettings_eq: "loadSettings data = DEFAULT_SETTINGS ++ spread data"
  by (simp add: loadSettings_def Object_assign_def spread_def)

lemma DEFAULT_SETTINGS_total: "k \<in> set settingsKeys \<Longrightarrow> DEFAULT_SETTINGS k \<noteq> None"
  by (auto simp: settingsKeys_def DEFAULT_SETTINGS_def)

text \<open>
  C8, as amended. Loading never fails. Every key that the stored data does not have takes its
  value from the default table, and every key of the settings interface has a value after
  loading. Every key that the stored data has takes the stored value as it is: nothing is
  validated, so an unrecognized string stored for a mode field is kept and used.
\<close>

theorem loadSettings_defaults_and_stored:
  "(spread data k = None \<longrightarrow> loadSettings data k = DEFAULT_SETTINGS k)
   \<and> (\<forall>v. spread data k = Some v \<longrightarrow> loadSettings data k = Some v)
   \<and> (k \<in> set settingsKeys \<longrightarrow> loadSettings data k \<noteq> None)"
  using DEFAULT_SETTINGS_total [of k]
  by (auto simp: loadSettings_eq map_add_def split: option.splits)

theorem loadSettings_defaults_and_stored_witness:
  "spread (Some [''triggerDelay'' \<mapsto> JNum 0]) ''footnotes'' = None
   \<and> loadSettings (Some [''triggerDelay'' \<mapsto> JNum 0]) ''footnotes'' = Some (JStr ''native'')
   \<and> spread (Some [''triggerDelay'' \<mapsto> JNum 0]) ''triggerDelay'' = Some (JNum 0)
   \<and> loadSettings (Some [''triggerDelay'' \<mapsto> JNum 0]) ''triggerDelay'' = Some (JNum 0)
   \<and> ''footnotes'' \<in> set settingsKeys
   \<and> loadSettings None ''footnotes'' = Some (JStr ''native'')"
proof -
  have d: "DEFAULT_SETTINGS ''footnotes'' = Some (JStr ''native'')"
    by (simp add: DEFAULT_SETTINGS_def)
  have s: "spread (Some [''triggerDelay'' \<mapsto> JNum 0]) ''footnotes'' = None"
    "spread (Some [''triggerDelay'' \<mapsto> JNum 0]) ''triggerDelay'' = Some (JNum 0)"
    "spread None ''footnotes'' = None"
    "''footnotes'' \<in> set settingsKeys"
    by (simp_all add: spread_def settingsKeys_def)
  show ?thesis
    using loadSettings_defaults_and_stored [of "Some [''triggerDelay'' \<mapsto> JNum 0]" "''footnotes''"]
      loadSettings_defaults_and_stored [of "Some [''triggerDelay'' \<mapsto> JNum 0]" "''triggerDelay''"]
      loadSettings_defaults_and_stored [of None "''footnotes''"] s d
    by simp
qed

text \<open>
  C8 as stated fails: the stored value \<^verbatim>\<open>"bogus"\<close> for \<^verbatim>\<open>footnotes\<close> is none of \<^verbatim>\<open>native\<close>,
  \<^verbatim>\<open>floating\<close>, \<^verbatim>\<open>sidebar\<close>; after loading, \<^verbatim>\<open>footnotes\<close> is \<^verbatim>\<open>"bogus"\<close>, not the default
  \<^verbatim>\<open>"native"\<close>. With that setting (and no delay) a hover on a footnote link whose file exists
  opens the floating popover: the value is neither \<^verbatim>\<open>"native"\<close> nor \<^verbatim>\<open>"sidebar"\<close>, and the last
  branch is taken.
\<close>

theorem unrecognized_mode_kept:
  "''footnotes'' \<in> set modeFields
   \<and> \<not> recognizedMode (JStr ''bogus'')
   \<and> DEFAULT_SETTINGS ''footnotes'' = Some (JStr ''native'')
   \<and> loadSettings (Some [''footnotes'' \<mapsto> JStr ''bogus'']) ''footnotes'' = Some (JStr ''bogus'')
   \<and> calls (onLinkHover exampleHost (exampleHover ''Note#[^1]'')
        (examplePlugin\<lparr>settings := defaultSettings\<lparr>footnotes := ''bogus'', triggerDelay := 0\<rparr>\<rparr>))
      = [FloatingLinkHover (exampleHover ''Note#[^1]'')]"
proof -
  have a: "''footnotes'' \<in> set modeFields" "\<not> recognizedMode (JStr ''bogus'')"
    "DEFAULT_SETTINGS ''footnotes'' = Some (JStr ''native'')"
    by (simp_all add: modeFields_def recognizedMode_def DEFAULT_SETTINGS_def)
  have b: "loadSettings (Some [''footnotes'' \<mapsto> JStr ''bogus'']) ''footnotes'' = Some (JStr ''bogus'')"
    by (simp add: loadSettings_eq spread_def)
  have c: "calls (onLinkHover exampleHost (exampleHover ''Note#[^1]'')
        (examplePlugin\<lparr>settings := defaultSettings\<lparr>footnotes := ''bogus'', triggerDelay := 0\<rparr>\<rparr>))
      = [FloatingLinkHover (exampleHover ''Note#[^1]'')]"
    by (simp add: onLinkHover_def handleHover_def linkMode_def Let_def emit_def examplePlugin_def
        exampleHost_def exampleHover_def obsidianParseLinktext_def)
  show ?thesis using a b c by simp
qed

text \<open>
  What such a value does later: a mode that is neither \<^verbatim>\<open>"native"\<close> nor \<^verbatim>\<open>"sidebar"\<close> takes the
  last branch of \<^verbatim>\<open>handleHover\<close>, the floating popover, when the file exists.
\<close>

lemma unrecognized_mode_acts_as_floating:
  assumes "mode \<noteq> ''sidebar''"
    and "getFirstLinkpathDest h (path (parseLinktext h (linkText a))) (sourcePath a) = Some file"
  shows "handleHover h mode a w = emit (FloatingLinkHover a) w"
  using assms by (simp add: handleHover_def)

subsection \<open>Popovers opened by commands\<close>

text \<open>A pinned popover with no close timer stays so under pointer and timer events.\<close>

lemma popoverStep_pinned:
  assumes "isPinned p" and "closeTimer p = None" and "\<not> destroyed p"
  shows "isPinned (popoverStep d p e) \<and> closeTimer (popoverStep d p e) = None
         \<and> \<not> destroyed (popoverStep d p e)
         \<and> attachedLeaf (popoverStep d p e) = attachedLeaf p"
  using assms by (cases e) simp_all

lemma popoverRun_pinned:
  assumes "isPinned p" and "closeTimer p = None" and "\<not> destroyed p"
  shows "isPinned (popoverRun d p evs) \<and> closeTimer (popoverRun d p evs) = None
         \<and> \<not> destroyed (popoverRun d p evs)
         \<and> attachedLeaf (popoverRun d p evs) = attachedLeaf p"
  using assms
proof (induction evs arbitrary: p)
  case Nil
  then show ?case by (simp add: popoverRun_def)
next
  case (Cons e evs)
  have step: "isPinned (popoverStep d p e) \<and> closeTimer (popoverStep d p e) = None
         \<and> \<not> destroyed (popoverStep d p e)
         \<and> attachedLeaf (popoverStep d p e) = attachedLeaf p"
    using popoverStep_pinned Cons.prems by blast
  have "popoverRun d p (e # evs) = popoverRun d (popoverStep d p e) evs"
    by (simp add: popoverRun_def)
  then show ?case
    using Cons.IH [of "popoverStep d p e"] step by simp
qed

text \<open>
  C10. Every popover that \<^verbatim>\<open>spawnPopover\<close> returns was pinned by \<^verbatim>\<open>togglePin(true)\<close> right after
  its construction and before \<^verbatim>\<open>attachLeaf\<close>: at the time of the pin it had no leaf. It is
  pinned when returned, with no close timer, and whatever pointer-enter, pointer-leave and
  timer-expiry events follow, it stays pinned, starts no close timer, keeps its leaf and is not
  destroyed.
\<close>

theorem spawnPopover_pinned_before_attach:
  assumes "spawnPopover activeLeaf nl el = Inr (l, p)"
  shows "(\<exists>a. activeLeaf = Some a
              \<and> (l, p) = attachLeaf nl (togglePin (Some True)
                   (newHoverEditor (activeLeafId a)
                      (case el of None \<Rightarrow> containerEl a | Some e \<Rightarrow> e)))
              \<and> isPinned (togglePin (Some True)
                   (newHoverEditor (activeLeafId a)
                      (case el of None \<Rightarrow> containerEl a | Some e \<Rightarrow> e)))
              \<and> attachedLeaf (togglePin (Some True)
                   (newHoverEditor (activeLeafId a)
                      (case el of None \<Rightarrow> containerEl a | Some e \<Rightarrow> e))) = None)
         \<and> l = nl \<and> isPinned p \<and> attachedLeaf p = Some nl \<and> closeTimer p = None
         \<and> \<not> destroyed p
         \<and> (\<forall>evs. isPinned (popoverRun d p evs) \<and> closeTimer (popoverRun d p evs) = None
                  \<and> \<not> destroyed (popoverRun d p evs)
                  \<and> attachedLeaf (popoverRun d p evs) = Some nl)"
proof -
  obtain a where a: "activeLeaf = Some a"
    using assms by (cases activeLeaf) (simp_all add: spawnPopover_def)
  let ?q = "newHoverEditor (activeLeafId a) (case el of None \<Rightarrow> containerEl a | Some e \<Rightarrow> e)"
  have lp: "(l, p) = attachLeaf nl (togglePin (Some True) ?q)"
    using assms by (simp add: spawnPopover_def a Let_def)
  have q: "isPinned (togglePin (Some True) ?q)" "attachedLeaf (togglePin (Some True) ?q) = None"
    by (simp_all add: newHoverEditor_def togglePin_def)
  have p: "l = nl" "isPinned p" "attachedLeaf p = Some nl" "closeTimer p = None" "\<not> destroyed p"
    using lp by (simp_all add: attachLeaf_def togglePin_def newHoverEditor_def)
  have run: "\<forall>evs. isPinned (popoverRun d p evs) \<and> closeTimer (popoverRun d p evs) = None
                  \<and> \<not> destroyed (popoverRun d p evs)
                  \<and> attachedLeaf (popoverRun d p evs) = Some nl"
    using popoverRun_pinned [OF p(2) p(4) p(5)] p(3) by simp
  show ?thesis
    using a lp q p run by blast
qed

theorem spawnPopover_pinned_before_attach_witness:
  "spawnPopover (Some \<lparr> activeLeafId = 1, containerEl = 2 \<rparr>) 9 None =
     Inr (9, \<lparr> hoverParent = 1, initiatingEl = 2, popState = Showing, isPinned = True,
              closeTimer = None, attachedLeaf = Some 9, destroyed = False \<rparr>)
   \<and> closeTimer (popoverRun 600
        \<lparr> hoverParent = 1, initiatingEl = 2, popState = Showing, isPinned = True,
          closeTimer = None, attachedLeaf = Some 9, destroyed = False \<rparr>
        [PointerEnter, PointerLeave, CloseTimerExpired]) = None
   \<and> \<not> destroyed (popoverRun 600
        \<lparr> hoverParent = 1, initiatingEl = 2, popState = Showing, isPinned = True,
          closeTimer = None, attachedLeaf = Some 9, destroyed = False \<rparr>
        [PointerEnter, PointerLeave, CloseTimerExpired])"
proof -
  have s: "spawnPopover (Some \<lparr> activeLeafId = 1, containerEl = 2 \<rparr>) 9 None =
     Inr (9, \<lparr> hoverParent = 1, initiatingEl = 2, popState = Showing, isPinned = True,
              closeTimer = None, attachedLeaf = Some 9, destroyed = False \<rparr>)"
    by (simp add: spawnPopover_def newHoverEditor_def togglePin_def attachLeaf_def)
  show ?thesis
    using spawnPopover_pinned_before_attach [OF s, of 600] s by blast
qed

end
